theory Spec2Isabelle
  imports Complex_Main
begin

section \<open>The runner game of \<^verbatim>\<open>src/components/RunnerGame.tsx\<close>\<close>

text \<open>
  The component keeps its simulation in one mutable object (\<^verbatim>\<open>stateRef.current\<close>) and a
  few React state cells beside it. Every handler of the component is modelled as a
  function from the component before the call to the component after it.

  Numbers. JavaScript numbers are IEEE doubles. Positions, velocities, the speed and the
  score accumulator are modelled as exact \<^typ>\<open>real\<close> numbers, so \<open>+\<close> below is the exact
  sum where the program computes the rounded one; nothing proved here depends on a sum
  being inexact. At the concrete inputs used below, positions, speeds and distances are
  multiples of one half, which doubles add exactly, and every comparison has a margin
  far above the rounding error. The score accumulator, a sum of tenths, is the one
  quantity whose double differs from the real number: by less than \<open>10\<^sup>-\<^sup>1\<^sup>0\<close>, which is
  enough for its floor to be one less than the floor of the real number at a tick where
  the real sum is whole (ten additions of 0.1 give 0.9999999999999999). Score properties
  below are about the exact accumulator. Counters are
  \<^typ>\<open>nat\<close>, integer scores are \<^typ>\<open>int\<close>. The balance is an integer or \<open>NaN\<close>.

  Randomness. \<^verbatim>\<open>Math.random()\<close> is an input: a tick receives a function \<open>rnd\<close>, and the
  \<open>k\<close>-th call of \<^verbatim>\<open>Math.random()\<close> made during that tick (counting from 0) returns
  \<open>rnd k\<close>. The phases that draw numbers pass the count of draws along.

  Drawing on the canvas, the background scroll, the sound and the unused \<^verbatim>\<open>Date.now()\<close>
  change nothing that the program reads back, and are left out.
\<close>

subsection \<open>Constants\<close>

definition PLAYER_SIZE :: real where "PLAYER_SIZE = 60"
definition INITIAL_GAME_SPEED :: real where "INITIAL_GAME_SPEED = 10"
definition JUMP_FORCE :: real where "JUMP_FORCE = - 20"
definition GRAVITY :: real where "GRAVITY = 12 / 10"
definition MAX_ENEMY_DISTANCE :: real where "MAX_ENEMY_DISTANCE = 350"
definition ENEMY_CATCH_DISTANCE :: real where "ENEMY_CATCH_DISTANCE = 30"
definition ENEMY_RECOVERY_RATE :: real where "ENEMY_RECOVERY_RATE = 1"
definition PLAYER_GROUND_OFFSET :: real where "PLAYER_GROUND_OFFSET = 120"
definition MIN_WITHDRAWAL_POINTS :: int where "MIN_WITHDRAWAL_POINTS = 1000"

subsection \<open>Data\<close>

text \<open>
  Field names follow the source where a record field can carry the name. The source
  reuses \<^verbatim>\<open>x\<close>, \<^verbatim>\<open>y\<close>, \<^verbatim>\<open>w\<close>, \<^verbatim>\<open>h\<close>, \<^verbatim>\<open>vx\<close>, \<^verbatim>\<open>vy\<close> in several interfaces; here the
  player's \<^verbatim>\<open>y\<close>, \<^verbatim>\<open>w\<close>, \<^verbatim>\<open>h\<close> are \<open>py\<close>, \<open>pw\<close>, \<open>ph\<close>, an obstacle's \<^verbatim>\<open>x\<close>, \<^verbatim>\<open>y\<close>, \<^verbatim>\<open>w\<close>, \<^verbatim>\<open>h\<close>
  are \<open>ox\<close>, \<open>oy\<close>, \<open>ow\<close>, \<open>oh\<close>, and a particle's \<^verbatim>\<open>x\<close>, \<^verbatim>\<open>y\<close>, \<^verbatim>\<open>vx\<close>, \<^verbatim>\<open>vy\<close> are \<open>qx\<close>, \<open>qy\<close>,
  \<open>qvx\<close>, \<open>qvy\<close>. The React state cell \<^verbatim>\<open>score\<close> is \<open>score_ui\<close>, to tell it from
  \<^verbatim>\<open>stateRef.current.score\<close>.
\<close>

datatype GameState = START | PLAYING | GAME_OVER

record Particle =
  qx :: real
  qy :: real
  qvx :: real
  qvy :: real
  life :: real
  color :: string

record Obstacle =
  ox :: real
  oy :: real
  ow :: real
  oh :: real
  collided :: bool

record Player =
  worldX :: real
  py :: real
  vy :: real
  pw :: real
  ph :: real
  grounded :: bool
  lastCollisionTime :: real

record Enemy =
  distance :: real

record State =
  player :: Player
  enemy :: Enemy
  obstacles :: "Obstacle list"
  particles :: "Particle list"
  gameSpeed :: real
  score :: real
  renderedScore :: int
  frameCount :: nat
  isRunning :: bool

text \<open>The balance: \<^verbatim>\<open>parseInt\<close> may store \<^verbatim>\<open>NaN\<close> in it.\<close>

datatype Balance = NaN | Num int

record Component =
  gameState :: GameState
  score_ui :: int
  highScore :: int
  balance :: Balance
  showSettings :: bool
  showWithdraw :: bool
  withdrawSuccess :: bool
  pointsAddedRef :: bool
  canvasHeight :: real
  stateRef :: State

text \<open>
  \<open>canvasHeight\<close> stands for both \<^verbatim>\<open>canvas.height\<close> and \<^verbatim>\<open>canvasSizeRef.current.h\<close>: the
  only writer of either is \<^verbatim>\<open>resize\<close>, which sets them to the same number.
\<close>

subsection \<open>Initial values and reset\<close>

definition initialState :: State where
  "initialState =
     \<lparr>player = \<lparr>worldX = 0, py = 0, vy = 0, pw = PLAYER_SIZE, ph = PLAYER_SIZE,
                 grounded = True, lastCollisionTime = 0\<rparr>,
      enemy = \<lparr>distance = MAX_ENEMY_DISTANCE\<rparr>,
      obstacles = [], particles = [], gameSpeed = INITIAL_GAME_SPEED, score = 0,
      renderedScore = 0, frameCount = 0, isRunning = False\<rparr>"

definition initialComponent :: Component where
  "initialComponent =
     \<lparr>gameState = START, score_ui = 0, highScore = 0, balance = Num 0,
      showSettings = False, showWithdraw = False, withdrawSuccess = False,
      pointsAddedRef = False, canvasHeight = 0, stateRef = initialState\<rparr>"

definition resetGame :: "Component \<Rightarrow> Component" where
  "resetGame c =
     (let groundY = canvasHeight c - PLAYER_GROUND_OFFSET in
      c\<lparr>stateRef :=
           \<lparr>player = \<lparr>worldX = 0, py = groundY - PLAYER_SIZE, vy = 0, pw = PLAYER_SIZE,
                       ph = PLAYER_SIZE, grounded = True, lastCollisionTime = 0\<rparr>,
            enemy = \<lparr>distance = 300\<rparr>,
            obstacles = [], particles = [], gameSpeed = INITIAL_GAME_SPEED, score = 0,
            renderedScore = 0, frameCount = 0, isRunning = True\<rparr>,
        score_ui := 0, pointsAddedRef := False, gameState := PLAYING\<rparr>)"

definition resize :: "real \<Rightarrow> Component \<Rightarrow> Component" where
  "resize innerHeight c =
     (let s = stateRef c in
      c\<lparr>canvasHeight := innerHeight,
        stateRef :=
          (if \<not> isRunning s \<and> gameState c = START
           then s\<lparr>player := (player s)\<lparr>py := innerHeight - PLAYER_GROUND_OFFSET - PLAYER_SIZE\<rparr>\<rparr>
           else s)\<rparr>)"

subsection \<open>The particle burst\<close>

text \<open>
  \<^verbatim>\<open>createExplosion\<close> pushes ten particles; particle \<open>i\<close> takes two draws, the first for
  \<^verbatim>\<open>vx\<close>. \<open>k\<close> is the number of draws made in the tick before the call.
\<close>

definition newParticle :: "(nat \<Rightarrow> real) \<Rightarrow> nat \<Rightarrow> real \<Rightarrow> real \<Rightarrow> string \<Rightarrow> nat \<Rightarrow> Particle" where
  "newParticle rnd k x y c i =
     \<lparr>qx = x, qy = y, qvx = (rnd (k + 2 * i) - 1 / 2) * 10,
      qvy = (rnd (k + 2 * i + 1) - 1 / 2) * 10, life = 1, color = c\<rparr>"

definition createExplosion ::
  "(nat \<Rightarrow> real) \<Rightarrow> nat \<Rightarrow> real \<Rightarrow> real \<Rightarrow> string \<Rightarrow> State \<Rightarrow> State" where
  "createExplosion rnd k x y c s =
     s\<lparr>particles := particles s @ map (newParticle rnd k x y c) [0..<10]\<rparr>"

subsection \<open>The phases of a tick\<close>

definition difficultyScaling :: "State \<Rightarrow> State" where
  "difficultyScaling s =
     (if frameCount s mod 600 = 0 then s\<lparr>gameSpeed := gameSpeed s + 1 / 2\<rparr> else s)"

definition movePlayer :: "State \<Rightarrow> State" where
  "movePlayer s = s\<lparr>player := (player s)\<lparr>worldX := worldX (player s) + gameSpeed s\<rparr>\<rparr>"

definition playerPhysics :: "real \<Rightarrow> State \<Rightarrow> State" where
  "playerPhysics canvasH s =
     (let p = player s;
          vy1 = vy p + GRAVITY;
          y1 = py p + vy1;
          currentGroundY = canvasH - PLAYER_GROUND_OFFSET
      in if y1 + ph p \<ge> currentGroundY
         then s\<lparr>player := p\<lparr>py := currentGroundY - ph p, vy := 0, grounded := True\<rparr>\<rparr>
         else s\<lparr>player := p\<lparr>py := y1, vy := vy1, grounded := False\<rparr>\<rparr>)"

definition enemyDrift :: "State \<Rightarrow> State" where
  "enemyDrift s =
     (if distance (enemy s) < MAX_ENEMY_DISTANCE
      then s\<lparr>enemy := (enemy s)\<lparr>distance := distance (enemy s) + ENEMY_RECOVERY_RATE * (1 / 2)\<rparr>\<rparr>
      else s)"

text \<open>
  Spawning. With no obstacle the gap test is true without a draw (\<^verbatim>\<open>||\<close> stops at
  \<^verbatim>\<open>!lastObstacle\<close>); otherwise it takes one draw. The spawn chance takes the next one.
  The result carries the number of draws made.
\<close>

definition spawnObstacle :: "(nat \<Rightarrow> real) \<Rightarrow> real \<Rightarrow> State \<Rightarrow> State \<times> nat" where
  "spawnObstacle rnd canvasH s =
     (let spawnDistance = 1200;
          (gap, k) =
            (if obstacles s = [] then (True, 0)
             else (worldX (player s) + spawnDistance - ox (last (obstacles s))
                     > 600 + rnd 0 * 500, 1))
      in if gap
         then (if rnd k < 2 / 100
               then (s\<lparr>obstacles := obstacles s @
                        [\<lparr>ox = worldX (player s) + spawnDistance,
                          oy = (canvasH - PLAYER_GROUND_OFFSET) - 45,
                          ow = 60, oh = 45, collided = False\<rparr>]\<rparr>, k + 1)
               else (s, k + 1))
         else (s, k))"

definition removeOldObstacle :: "State \<Rightarrow> State" where
  "removeOldObstacle s =
     (if length (obstacles s) > 20 then s\<lparr>obstacles := tl (obstacles s)\<rparr> else s)"

text \<open>The overlap test of the collision loop, with \<^verbatim>\<open>hitboxPadding = 10\<close>.\<close>

definition hits :: "Player \<Rightarrow> Obstacle \<Rightarrow> bool" where
  "hits p obs =
     (let hitboxPadding = 10 in
      worldX p < ox obs + ow obs - hitboxPadding \<and>
      worldX p + pw p > ox obs + hitboxPadding \<and>
      py p < oy obs + oh obs - hitboxPadding \<and>
      py p + ph p > oy obs + hitboxPadding)"

text \<open>
  The four statements that end a run. They stand twice in the source, in the collision
  branch and in the catch check: \<^verbatim>\<open>isRunning = false\<close>, \<^verbatim>\<open>setGameState("GAME_OVER")\<close>,
  \<^verbatim>\<open>setHighScore(prev => Math.max(prev, Math.floor(state.score)))\<close> and
  \<^verbatim>\<open>createExplosion(state.player.worldX, state.player.y + PLAYER_SIZE / 2, "red")\<close>.
  The high score is computed here from the score at the call; React runs the updater
  when it next renders, after the tick has added its tenth to the score, so the code's
  high score can be the floor of a score one tenth higher. No property below reads
  \<open>highScore\<close>.
\<close>

definition endRun :: "(nat \<Rightarrow> real) \<Rightarrow> nat \<Rightarrow> Component \<Rightarrow> Component" where
  "endRun rnd k c =
     (let s = (stateRef c)\<lparr>isRunning := False\<rparr> in
      c\<lparr>gameState := GAME_OVER,
        highScore := max (highScore c) \<lfloor>score s\<rfloor>,
        stateRef := createExplosion rnd k (worldX (player s)) (py (player s) + PLAYER_SIZE / 2)
                      ''red'' s\<rparr>)"

text \<open>
  The collision loop walks the obstacle array and writes \<^verbatim>\<open>collided\<close> into its elements.
  Here it walks the list it is given and returns the elements as the loop leaves them,
  the number of draws and the component; \<open>collisionDetection\<close> stores the elements back.
  Nothing in the loop body changes the player, so every test reads the same hitbox.
\<close>

fun collisionLoop ::
  "(nat \<Rightarrow> real) \<Rightarrow> Obstacle list \<Rightarrow> nat \<Rightarrow> Component \<Rightarrow> Obstacle list \<times> nat \<times> Component" where
  "collisionLoop rnd [] k c = ([], k, c)"
| "collisionLoop rnd (obs # rest) k c =
     (if collided obs
      then (let (rest', r) = collisionLoop rnd rest k c in (obs # rest', r))
      else if hits (player (stateRef c)) obs
      then (let c' = endRun rnd k
                       (c\<lparr>stateRef := (stateRef c)\<lparr>enemy := (enemy (stateRef c))\<lparr>distance := 0\<rparr>\<rparr>\<rparr>);
                (rest', r) = collisionLoop rnd rest (k + 20) c'
            in (obs\<lparr>collided := True\<rparr> # rest', r))
      else (let (rest', r) = collisionLoop rnd rest k c in (obs # rest', r)))"

definition collisionDetection :: "(nat \<Rightarrow> real) \<Rightarrow> nat \<Rightarrow> Component \<Rightarrow> Component \<times> nat" where
  "collisionDetection rnd k c =
     (let (obs', k', c') = collisionLoop rnd (obstacles (stateRef c)) k c
      in (c'\<lparr>stateRef := (stateRef c')\<lparr>obstacles := obs'\<rparr>\<rparr>, k'))"

definition enemyCatchCheck :: "(nat \<Rightarrow> real) \<Rightarrow> nat \<Rightarrow> Component \<Rightarrow> Component" where
  "enemyCatchCheck rnd k c =
     (if distance (enemy (stateRef c)) \<le> ENEMY_CATCH_DISTANCE then endRun rnd k c else c)"

text \<open>
  Particles. The source walks the array from the last index down, moves each particle,
  and splices out the ones whose life has run out; a splice at \<open>i\<close> only shifts elements
  already visited. The result is the moved particles that are still alive, in order.
\<close>

definition moveParticle :: "Particle \<Rightarrow> Particle" where
  "moveParticle p = p\<lparr>qx := qx p + qvx p, qy := qy p + qvy p, life := life p - 5 / 100\<rparr>"

definition updateParticles :: "State \<Rightarrow> State" where
  "updateParticles s =
     s\<lparr>particles := filter (\<lambda>p. \<not> life p \<le> 0) (map moveParticle (particles s))\<rparr>"

definition updateScore :: "Component \<Rightarrow> Component" where
  "updateScore c =
     (let s = (stateRef c)\<lparr>score := score (stateRef c) + 1 / 10\<rparr>;
          currentIntScore = \<lfloor>score s\<rfloor>
      in if currentIntScore > renderedScore s
         then c\<lparr>score_ui := currentIntScore, stateRef := s\<lparr>renderedScore := currentIntScore\<rparr>\<rparr>
         else c\<lparr>stateRef := s\<rparr>)"

definition nextFrame :: "State \<Rightarrow> State" where
  "nextFrame s = s\<lparr>frameCount := frameCount s + 1\<rparr>"

subsection \<open>The tick\<close>

text \<open>
  \<open>beforeCollision\<close> is the simulation as the tick has it when the collision loop starts
  (phases 1 to 3b and the eviction), with the number of draws made so far.
\<close>

definition beforeCollision :: "(nat \<Rightarrow> real) \<Rightarrow> Component \<Rightarrow> State \<times> nat" where
  "beforeCollision rnd c =
     (let (s, k) = spawnObstacle rnd (canvasHeight c)
                     (enemyDrift (playerPhysics (canvasHeight c)
                        (movePlayer (difficultyScaling (stateRef c)))))
      in (removeOldObstacle s, k))"

definition afterCollision :: "(nat \<Rightarrow> real) \<Rightarrow> Component \<Rightarrow> Component \<times> nat" where
  "afterCollision rnd c =
     (let (s, k) = beforeCollision rnd c in collisionDetection rnd k (c\<lparr>stateRef := s\<rparr>))"

definition loop :: "(nat \<Rightarrow> real) \<Rightarrow> Component \<Rightarrow> Component" where
  "loop rnd c =
     (if \<not> isRunning (stateRef c) then c
      else
        (let (c1, k) = afterCollision rnd c;
             c2 = enemyCatchCheck rnd k c1;
             c3 = updateScore (c2\<lparr>stateRef := updateParticles (stateRef c2)\<rparr>)
         in c3\<lparr>stateRef := nextFrame (stateRef c3)\<rparr>))"

subsection \<open>Input\<close>

text \<open>\<open>code\<close> is \<^verbatim>\<open>e.code\<close> of the key event. The second branch of the source is empty.\<close>

definition handleKeyDown :: "string \<Rightarrow> Component \<Rightarrow> Component" where
  "handleKeyDown code c =
     (if code = ''Space'' \<or> code = ''ArrowUp''
      then (if grounded (player (stateRef c)) \<and> isRunning (stateRef c)
            then c\<lparr>stateRef := (stateRef c)\<lparr>player :=
                     (player (stateRef c))\<lparr>vy := JUMP_FORCE, grounded := False\<rparr>\<rparr>\<rparr>
            else c)
      else c)"

subsection \<open>The balance\<close>

fun plus_balance :: "Balance \<Rightarrow> int \<Rightarrow> Balance" where
  "plus_balance NaN n = NaN"
| "plus_balance (Num b) n = Num (b + n)"

fun ge_balance :: "Balance \<Rightarrow> int \<Rightarrow> bool" where
  "ge_balance NaN n = False"
| "ge_balance (Num b) n = (b \<ge> n)"

text \<open>
  \<^verbatim>\<open>onAnimationStart\<close> of the game-over overlay; the overlay is mounted only while
  \<^verbatim>\<open>gameState === "GAME_OVER"\<close>. \<^verbatim>\<open>score\<close> already is an integer.
\<close>

definition onAnimationStart :: "Component \<Rightarrow> Component" where
  "onAnimationStart c =
     (if gameState c \<noteq> GAME_OVER then c
      else if \<not> pointsAddedRef c
      then (let earnedPoints = score_ui c;
                c' = (if earnedPoints > 0
                      then c\<lparr>balance := plus_balance (balance c) earnedPoints\<rparr> else c)
            in c'\<lparr>pointsAddedRef := True\<rparr>)
      else c)"

text \<open>The click handler of the withdrawal button.\<close>

definition withdraw :: "Component \<Rightarrow> Component" where
  "withdraw c =
     (if ge_balance (balance c) MIN_WITHDRAWAL_POINTS
      then c\<lparr>withdrawSuccess := True, showWithdraw := False, balance := Num 0\<rparr>
      else c)"

text \<open>
  \<^verbatim>\<open>parseInt(s, 10)\<close>: skip leading white space, read an optional sign, read the longest
  run of decimal digits; no digit gives \<^verbatim>\<open>NaN\<close>. A \<^typ>\<open>char\<close> is one code unit below
  256, so the white space here is TAB, LF, VT, FF, CR, SP and NBSP. The value is the exact
  integer (a double rounds it beyond \<open>2^53\<close>).
\<close>

definition isWhiteSpace :: "char \<Rightarrow> bool" where
  "isWhiteSpace ch = (of_char ch \<in> {9, 10, 11, 12, 13, 32, 160 :: nat})"

definition isDigit :: "char \<Rightarrow> bool" where
  "isDigit ch = (48 \<le> (of_char ch :: nat) \<and> (of_char ch :: nat) \<le> 57)"

definition digitsValue :: "string \<Rightarrow> int" where
  "digitsValue ds = foldl (\<lambda>a ch. 10 * a + (int (of_char ch) - 48)) 0 ds"

definition parseInt :: "string \<Rightarrow> Balance" where
  "parseInt inputString =
     (let s = dropWhile isWhiteSpace inputString;
          (sign, s') = (case s of
                          [] \<Rightarrow> (1, s)
                        | ch # r \<Rightarrow> if ch = CHR ''-'' then (- 1, r)
                                    else if ch = CHR ''+'' then (1, r) else (1, s));
          ds = takeWhile isDigit s'
      in if ds = [] then NaN else Num (sign * digitsValue ds))"

text \<open>
  The effect that loads the balance on mount; the argument is what
  \<^verbatim>\<open>localStorage.getItem('gameBalance')\<close> returned (\<open>None\<close> for \<^verbatim>\<open>null\<close>). The empty
  string is falsy.
\<close>

definition loadBalance :: "string option \<Rightarrow> Component \<Rightarrow> Component" where
  "loadBalance savedBalance c =
     (case savedBalance of
        None \<Rightarrow> c
      | Some v \<Rightarrow> if v = [] then c else c\<lparr>balance := parseInt v\<rparr>)"

subsection \<open>Events and reachable components\<close>

text \<open>
  Everything that can happen to the mounted component: a window resize, a click on a
  start or retry button, an animation frame, a key press, the start of the game-over
  animation, a click on the withdrawal button, the load of the stored balance, and the
  buttons that open and close the dialogs.
\<close>

datatype Event =
    Resize real
  | Reset
  | Tick "nat \<Rightarrow> real"
  | KeyDown string
  | AnimationStart
  | WithdrawClick
  | LoadBalance "string option"
  | SetShowSettings bool
  | SetShowWithdraw bool
  | CloseWithdrawSuccess

fun dispatch :: "Event \<Rightarrow> Component \<Rightarrow> Component" where
  "dispatch (Resize h) c = resize h c"
| "dispatch Reset c = resetGame c"
| "dispatch (Tick rnd) c = loop rnd c"
| "dispatch (KeyDown code) c = handleKeyDown code c"
| "dispatch AnimationStart c = onAnimationStart c"
| "dispatch WithdrawClick c = withdraw c"
| "dispatch (LoadBalance v) c = loadBalance v c"
| "dispatch (SetShowSettings b) c = c\<lparr>showSettings := b\<rparr>"
| "dispatch (SetShowWithdraw b) c = c\<lparr>showWithdraw := b\<rparr>"
| "dispatch CloseWithdrawSuccess c = c\<lparr>withdrawSuccess := False\<rparr>"

text \<open>\<^verbatim>\<open>Math.random()\<close> returns a number in \<open>[0, 1)\<close>.\<close>

definition validRandom :: "(nat \<Rightarrow> real) \<Rightarrow> bool" where
  "validRandom rnd = (\<forall>k. 0 \<le> rnd k \<and> rnd k < 1)"

fun validEvent :: "Event \<Rightarrow> bool" where
  "validEvent (Tick rnd) = validRandom rnd"
| "validEvent e = True"

inductive reachable :: "Component \<Rightarrow> bool" where
  reachable_init: "reachable initialComponent"
| reachable_step: "reachable c \<Longrightarrow> validEvent e \<Longrightarrow> reachable (dispatch e c)"

subsection \<open>Notions used to state the properties\<close>

text \<open>The obstacles that the collision loop marks: not yet triggered, and overlapping.\<close>

definition newHits :: "Player \<Rightarrow> Obstacle list \<Rightarrow> Obstacle list" where
  "newHits p obs = filter (\<lambda>obs. \<not> collided obs \<and> hits p obs) obs"

text \<open>A run that a trap has ended.\<close>

definition ended :: "Component \<Rightarrow> bool" where
  "ended c =
     (\<not> isRunning (stateRef c) \<and> distance (enemy (stateRef c)) = 0 \<and> gameState c = GAME_OVER)"

text \<open>
  Rectangles, to compare the overlap test with the one the specification describes:
  two boxes overlap when each begins before the other ends, on both axes; shrinking a
  box by \<open>d\<close> moves each of its four sides inward by \<open>d\<close>.
\<close>

record Rect =
  xmin :: real
  ymin :: real
  xmax :: real
  ymax :: real

definition overlap :: "Rect \<Rightarrow> Rect \<Rightarrow> bool" where
  "overlap a b = (xmin a < xmax b \<and> xmax a > xmin b \<and> ymin a < ymax b \<and> ymax a > ymin b)"

definition shrink :: "real \<Rightarrow> Rect \<Rightarrow> Rect" where
  "shrink d r = \<lparr>xmin = xmin r + d, ymin = ymin r + d, xmax = xmax r - d, ymax = ymax r - d\<rparr>"

definition playerBox :: "Player \<Rightarrow> Rect" where
  "playerBox p = \<lparr>xmin = worldX p, ymin = py p, xmax = worldX p + pw p, ymax = py p + ph p\<rparr>"

definition obstacleBox :: "Obstacle \<Rightarrow> Rect" where
  "obstacleBox obs = \<lparr>xmin = ox obs, ymin = oy obs, xmax = ox obs + ow obs, ymax = oy obs + oh obs\<rparr>"

text \<open>A particle as \<open>createExplosion\<close> makes it at \<open>(x, y)\<close>, before it has moved.\<close>

definition freshParticle :: "real \<Rightarrow> real \<Rightarrow> Particle \<Rightarrow> bool" where
  "freshParticle x y p = (qx p = x \<and> qy p = y \<and> life p = 1 \<and> color p = ''red'')"

text \<open>
  What every reachable component satisfies (\<open>reachable_sessionInv\<close> below): running
  means playing; a running session has no particles and has not yet credited its
  points; successive obstacles lie more than 600 apart and are 60 wide, as is the
  player; and the displayed score is the floor of the accumulated one.
\<close>

definition sessionInv :: "Component \<Rightarrow> bool" where
  "sessionInv c =
     (let s = stateRef c in
      (isRunning s \<longleftrightarrow> gameState c = PLAYING)
      \<and> (isRunning s \<longrightarrow> particles s = [] \<and> \<not> pointsAddedRef c)
      \<and> sorted_wrt (\<lambda>a b. a + 600 < b) (map ox (obstacles s))
      \<and> list_all (\<lambda>obs. ow obs = 60) (obstacles s)
      \<and> pw (player s) = 60
      \<and> 0 \<le> score s \<and> renderedScore s = \<lfloor>score s\<rfloor> \<and> score_ui c = \<lfloor>score s\<rfloor>)"

text \<open>
  A component late in a run on an 800 pixel canvas: 111 ticks after the reset, with one
  trap, spawned in the second tick at \<open>x = 21 + 1200\<close>, now 55.5 ahead of the player,
  who runs on the ground at speed 10.5.
\<close>

definition beforeTrap :: Component where
  "beforeTrap =
     \<lparr>gameState = PLAYING, score_ui = 11, highScore = 0, balance = Num 0,
      showSettings = False, showWithdraw = False, withdrawSuccess = False,
      pointsAddedRef = False, canvasHeight = 800,
      stateRef =
        \<lparr>player = \<lparr>worldX = 2331 / 2, py = 620, vy = 0, pw = 60, ph = 60,
                    grounded = True, lastCollisionTime = 0\<rparr>,
         enemy = \<lparr>distance = 350\<rparr>,
         obstacles = [\<lparr>ox = 1221, oy = 635, ow = 60, oh = 45, collided = False\<rparr>],
         particles = [], gameSpeed = 21 / 2, score = 111 / 10, renderedScore = 11,
         frameCount = 111, isRunning = True\<rparr>\<rparr>"

text \<open>
  The run that leads there, in closed form and in exact arithmetic: the component \<open>n\<close>
  ticks after the reset, for \<open>n\<close> from 2 to 111, when the second tick has spawned the
  trap and no later tick has spawned another.
\<close>

definition quietRun :: "nat \<Rightarrow> Component" where
  "quietRun n =
     \<lparr>gameState = PLAYING, score_ui = int (n div 10), highScore = 0, balance = Num 0,
      showSettings = False, showWithdraw = False, withdrawSuccess = False,
      pointsAddedRef = False, canvasHeight = 800,
      stateRef =
        \<lparr>player = \<lparr>worldX = 21 / 2 * real n, py = 620, vy = 0, pw = 60, ph = 60,
                    grounded = True, lastCollisionTime = 0\<rparr>,
         enemy = \<lparr>distance = min 350 (300 + real n / 2)\<rparr>,
         obstacles = [\<lparr>ox = 1221, oy = 635, ow = 60, oh = 45, collided = False\<rparr>],
         particles = [], gameSpeed = 21 / 2, score = real n / 10, renderedScore = int (n div 10),
         frameCount = n, isRunning = True\<rparr>\<rparr>"

text \<open>
  A long run. The ground line is read from the canvas in every tick, and a trap keeps
  the height it was spawned at. On an 800 pixel canvas the player runs with its feet at
  680; a trap spawned while the window is 900 pixels high lies between 735 and 780, below
  the player's hitbox, so the player passes it without a jump. \<open>quietTick\<close> is a tick
  whose draws never spawn; \<open>spawnTick\<close> is a tick whose draws spawn as soon as the gap
  allows. A \<open>spawnBlock\<close> runs 57 quiet ticks, spawns one trap with the window at 900,
  returns to 800 and runs one more quiet tick, which puts the player back on the ground
  line; \<open>longRun k\<close> is a reset and a first tick followed by \<open>k\<close> such blocks, and
  \<open>twentyTraps\<close> is the component after twenty of them.
\<close>

definition quietTick :: Event where
  "quietTick = Tick (\<lambda>_. 1 / 2)"

definition spawnTick :: Event where
  "spawnTick = Tick (\<lambda>_. 0)"

definition spawnBlock :: "Event list" where
  "spawnBlock = replicate 57 quietTick @ [Resize 900, spawnTick, Resize 800, quietTick]"

definition longRun :: "nat \<Rightarrow> Event list" where
  "longRun k = [Resize 800, Reset, quietTick] @ concat (replicate k spawnBlock)"

definition twentyTraps :: Component where
  "twentyTraps = fold dispatch (longRun 20) initialComponent"

text \<open>
  What holds along that run, \<open>j\<close> ticks after the last spawn, with \<open>k\<close> traps in the
  list: the player is on or just above the ground line of the 800 pixel canvas, every
  trap lies at the height of the 900 pixel canvas, and the last trap is at most 1200
  ahead of where the player was \<open>j\<close> ticks ago. \<open>cruise\<close> adds that the player stands
  on the ground line.
\<close>

definition rolling :: "nat \<Rightarrow> nat \<Rightarrow> Component \<Rightarrow> bool" where
  "rolling k j c =
     (let s = stateRef c; p = player s in
      canvasHeight c = 800 \<and> isRunning s \<and> ph p = 60 \<and> 620 \<le> py p \<and> 0 \<le> vy p
      \<and> 300 \<le> distance (enemy s) \<and> 21 / 2 \<le> gameSpeed s
      \<and> length (obstacles s) = k
      \<and> list_all (\<lambda>obs. oy obs = 735 \<and> oh obs = 45) (obstacles s)
      \<and> (obstacles s \<noteq> [] \<longrightarrow> ox (last (obstacles s)) + 21 / 2 * real j \<le> worldX p + 1200))"

definition cruise :: "nat \<Rightarrow> nat \<Rightarrow> Component \<Rightarrow> bool" where
  "cruise k j c =
     (rolling k j c \<and> py (player (stateRef c)) = 620 \<and> vy (player (stateRef c)) = 0)"

section \<open>Properties\<close>

lemmas constants =
  PLAYER_SIZE_def INITIAL_GAME_SPEED_def JUMP_FORCE_def GRAVITY_def MAX_ENEMY_DISTANCE_def
  ENEMY_CATCH_DISTANCE_def ENEMY_RECOVERY_RATE_def PLAYER_GROUND_OFFSET_def
  MIN_WITHDRAWAL_POINTS_def


subsection \<open>What the statements that end a run change\<close>

lemma endRun_proj:
  "player (stateRef (endRun rnd k c)) = player (stateRef c)"
  "enemy (stateRef (endRun rnd k c)) = enemy (stateRef c)"
  "obstacles (stateRef (endRun rnd k c)) = obstacles (stateRef c)"
  "gameSpeed (stateRef (endRun rnd k c)) = gameSpeed (stateRef c)"
  "score (stateRef (endRun rnd k c)) = score (stateRef c)"
  "renderedScore (stateRef (endRun rnd k c)) = renderedScore (stateRef c)"
  "frameCount (stateRef (endRun rnd k c)) = frameCount (stateRef c)"
  "isRunning (stateRef (endRun rnd k c)) = False"
  "gameState (endRun rnd k c) = GAME_OVER"
  "score_ui (endRun rnd k c) = score_ui c"
  "balance (endRun rnd k c) = balance c"
  "pointsAddedRef (endRun rnd k c) = pointsAddedRef c"
  "canvasHeight (endRun rnd k c) = canvasHeight c"
  "showWithdraw (endRun rnd k c) = showWithdraw c"
  "withdrawSuccess (endRun rnd k c) = withdrawSuccess c"
  "showSettings (endRun rnd k c) = showSettings c"
  "highScore (endRun rnd k c) = max (highScore c) \<lfloor>score (stateRef c)\<rfloor>"
  "particles (stateRef (endRun rnd k c)) =
     particles (stateRef c) @
       map (newParticle rnd k (worldX (player (stateRef c)))
              (py (player (stateRef c)) + PLAYER_SIZE / 2) ''red'') [0..<10]"
  by (simp_all add: endRun_def createExplosion_def Let_def)

subsection \<open>The collision loop\<close>

lemma collisionLoop_proj:
  "player (stateRef (snd (snd (collisionLoop rnd obs k c)))) = player (stateRef c)"
  "obstacles (stateRef (snd (snd (collisionLoop rnd obs k c)))) = obstacles (stateRef c)"
  "gameSpeed (stateRef (snd (snd (collisionLoop rnd obs k c)))) = gameSpeed (stateRef c)"
  "score (stateRef (snd (snd (collisionLoop rnd obs k c)))) = score (stateRef c)"
  "renderedScore (stateRef (snd (snd (collisionLoop rnd obs k c)))) = renderedScore (stateRef c)"
  "frameCount (stateRef (snd (snd (collisionLoop rnd obs k c)))) = frameCount (stateRef c)"
  "score_ui (snd (snd (collisionLoop rnd obs k c))) = score_ui c"
  "balance (snd (snd (collisionLoop rnd obs k c))) = balance c"
  "pointsAddedRef (snd (snd (collisionLoop rnd obs k c))) = pointsAddedRef c"
  "canvasHeight (snd (snd (collisionLoop rnd obs k c))) = canvasHeight c"
  "showWithdraw (snd (snd (collisionLoop rnd obs k c))) = showWithdraw c"
  "withdrawSuccess (snd (snd (collisionLoop rnd obs k c))) = withdrawSuccess c"
  "showSettings (snd (snd (collisionLoop rnd obs k c))) = showSettings c"
  by (induction obs arbitrary: k c; simp add: split_beta Let_def endRun_proj)+

lemma collisionLoop_obstacles:
  "fst (collisionLoop rnd obs k c) =
     map (\<lambda>obs. if \<not> collided obs \<and> hits (player (stateRef c)) obs
                then obs\<lparr>collided := True\<rparr> else obs) obs"
  by (induction obs arbitrary: k c) (simp_all add: split_beta Let_def endRun_proj)

lemma collisionLoop_draws:
  "fst (snd (collisionLoop rnd obs k c)) = k + 20 * length (newHits (player (stateRef c)) obs)"
  by (induction obs arbitrary: k c) (simp_all add: split_beta Let_def endRun_proj newHits_def)

lemma collisionLoop_miss:
  "newHits (player (stateRef c)) obs = [] \<Longrightarrow> snd (snd (collisionLoop rnd obs k c)) = c"
  by (induction obs arbitrary: k c) (auto simp add: split_beta Let_def newHits_def)

lemma ended_endRun: "distance (enemy (stateRef c)) = 0 \<Longrightarrow> ended (endRun rnd k c)"
  by (simp add: ended_def endRun_proj)

lemma collisionLoop_ended:
  "ended c \<Longrightarrow> ended (snd (snd (collisionLoop rnd obs k c)))"
  by (induction obs arbitrary: k c) (simp_all add: split_beta Let_def ended_endRun)

lemma collisionLoop_hit:
  "newHits (player (stateRef c)) obs \<noteq> [] \<Longrightarrow> ended (snd (snd (collisionLoop rnd obs k c)))"
proof (induction obs arbitrary: k c)
  case Nil
  then show ?case by (simp add: newHits_def)
next
  case (Cons obs rest)
  show ?case
  proof (cases "\<not> collided obs \<and> hits (player (stateRef c)) obs")
    case True
    then show ?thesis
      by (simp add: split_beta Let_def collisionLoop_ended ended_endRun)
  next
    case False
    with Cons.prems have "newHits (player (stateRef c)) rest \<noteq> []"
      by (auto simp add: newHits_def)
    with False Cons.IH show ?thesis
      by (auto simp add: split_beta Let_def)
  qed
qed

lemma collisionLoop_particles:
  "length (particles (stateRef (snd (snd (collisionLoop rnd obs k c))))) =
     length (particles (stateRef c)) + 10 * length (newHits (player (stateRef c)) obs)"
  by (induction obs arbitrary: k c) (simp_all add: split_beta Let_def endRun_proj newHits_def)

subsection \<open>What each phase leaves alone\<close>

lemma difficultyScaling_proj:
  "player (difficultyScaling s) = player s"
  "enemy (difficultyScaling s) = enemy s"
  "obstacles (difficultyScaling s) = obstacles s"
  "particles (difficultyScaling s) = particles s"
  "score (difficultyScaling s) = score s"
  "renderedScore (difficultyScaling s) = renderedScore s"
  "frameCount (difficultyScaling s) = frameCount s"
  "isRunning (difficultyScaling s) = isRunning s"
  "gameSpeed (difficultyScaling s) = gameSpeed s + (if frameCount s mod 600 = 0 then 1 / 2 else 0)"
  by (simp_all add: difficultyScaling_def)

lemma movePlayer_proj:
  "worldX (player (movePlayer s)) = worldX (player s) + gameSpeed s"
  "py (player (movePlayer s)) = py (player s)"
  "vy (player (movePlayer s)) = vy (player s)"
  "pw (player (movePlayer s)) = pw (player s)"
  "ph (player (movePlayer s)) = ph (player s)"
  "grounded (player (movePlayer s)) = grounded (player s)"
  "enemy (movePlayer s) = enemy s"
  "obstacles (movePlayer s) = obstacles s"
  "particles (movePlayer s) = particles s"
  "gameSpeed (movePlayer s) = gameSpeed s"
  "score (movePlayer s) = score s"
  "renderedScore (movePlayer s) = renderedScore s"
  "frameCount (movePlayer s) = frameCount s"
  "isRunning (movePlayer s) = isRunning s"
  by (simp_all add: movePlayer_def)

lemma playerPhysics_proj:
  "worldX (player (playerPhysics h s)) = worldX (player s)"
  "pw (player (playerPhysics h s)) = pw (player s)"
  "ph (player (playerPhysics h s)) = ph (player s)"
  "enemy (playerPhysics h s) = enemy s"
  "obstacles (playerPhysics h s) = obstacles s"
  "particles (playerPhysics h s) = particles s"
  "gameSpeed (playerPhysics h s) = gameSpeed s"
  "score (playerPhysics h s) = score s"
  "renderedScore (playerPhysics h s) = renderedScore s"
  "frameCount (playerPhysics h s) = frameCount s"
  "isRunning (playerPhysics h s) = isRunning s"
  by (simp_all add: playerPhysics_def Let_def)

lemma enemyDrift_proj:
  "player (enemyDrift s) = player s"
  "obstacles (enemyDrift s) = obstacles s"
  "particles (enemyDrift s) = particles s"
  "gameSpeed (enemyDrift s) = gameSpeed s"
  "score (enemyDrift s) = score s"
  "renderedScore (enemyDrift s) = renderedScore s"
  "frameCount (enemyDrift s) = frameCount s"
  "isRunning (enemyDrift s) = isRunning s"
  by (simp_all add: enemyDrift_def)

lemma spawnObstacle_proj:
  "player (fst (spawnObstacle rnd h s)) = player s"
  "enemy (fst (spawnObstacle rnd h s)) = enemy s"
  "particles (fst (spawnObstacle rnd h s)) = particles s"
  "gameSpeed (fst (spawnObstacle rnd h s)) = gameSpeed s"
  "score (fst (spawnObstacle rnd h s)) = score s"
  "renderedScore (fst (spawnObstacle rnd h s)) = renderedScore s"
  "frameCount (fst (spawnObstacle rnd h s)) = frameCount s"
  "isRunning (fst (spawnObstacle rnd h s)) = isRunning s"
  by (simp_all add: spawnObstacle_def Let_def split_beta)

lemma removeOldObstacle_proj:
  "player (removeOldObstacle s) = player s"
  "enemy (removeOldObstacle s) = enemy s"
  "particles (removeOldObstacle s) = particles s"
  "gameSpeed (removeOldObstacle s) = gameSpeed s"
  "score (removeOldObstacle s) = score s"
  "renderedScore (removeOldObstacle s) = renderedScore s"
  "frameCount (removeOldObstacle s) = frameCount s"
  "isRunning (removeOldObstacle s) = isRunning s"
  by (simp_all add: removeOldObstacle_def)

lemma collisionDetection_proj:
  "player (stateRef (fst (collisionDetection rnd k c))) = player (stateRef c)"
  "gameSpeed (stateRef (fst (collisionDetection rnd k c))) = gameSpeed (stateRef c)"
  "score (stateRef (fst (collisionDetection rnd k c))) = score (stateRef c)"
  "renderedScore (stateRef (fst (collisionDetection rnd k c))) = renderedScore (stateRef c)"
  "frameCount (stateRef (fst (collisionDetection rnd k c))) = frameCount (stateRef c)"
  "score_ui (fst (collisionDetection rnd k c)) = score_ui c"
  "balance (fst (collisionDetection rnd k c)) = balance c"
  "pointsAddedRef (fst (collisionDetection rnd k c)) = pointsAddedRef c"
  "canvasHeight (fst (collisionDetection rnd k c)) = canvasHeight c"
  "showWithdraw (fst (collisionDetection rnd k c)) = showWithdraw c"
  "withdrawSuccess (fst (collisionDetection rnd k c)) = withdrawSuccess c"
  "showSettings (fst (collisionDetection rnd k c)) = showSettings c"
  by (simp_all add: collisionDetection_def split_beta Let_def collisionLoop_proj)

lemma enemyCatchCheck_proj:
  "player (stateRef (enemyCatchCheck rnd k c)) = player (stateRef c)"
  "enemy (stateRef (enemyCatchCheck rnd k c)) = enemy (stateRef c)"
  "obstacles (stateRef (enemyCatchCheck rnd k c)) = obstacles (stateRef c)"
  "gameSpeed (stateRef (enemyCatchCheck rnd k c)) = gameSpeed (stateRef c)"
  "score (stateRef (enemyCatchCheck rnd k c)) = score (stateRef c)"
  "renderedScore (stateRef (enemyCatchCheck rnd k c)) = renderedScore (stateRef c)"
  "frameCount (stateRef (enemyCatchCheck rnd k c)) = frameCount (stateRef c)"
  "score_ui (enemyCatchCheck rnd k c) = score_ui c"
  "balance (enemyCatchCheck rnd k c) = balance c"
  "pointsAddedRef (enemyCatchCheck rnd k c) = pointsAddedRef c"
  "canvasHeight (enemyCatchCheck rnd k c) = canvasHeight c"
  "showWithdraw (enemyCatchCheck rnd k c) = showWithdraw c"
  "withdrawSuccess (enemyCatchCheck rnd k c) = withdrawSuccess c"
  "showSettings (enemyCatchCheck rnd k c) = showSettings c"
  by (simp_all add: enemyCatchCheck_def endRun_proj)

lemma updateParticles_proj:
  "player (updateParticles s) = player s"
  "enemy (updateParticles s) = enemy s"
  "obstacles (updateParticles s) = obstacles s"
  "gameSpeed (updateParticles s) = gameSpeed s"
  "score (updateParticles s) = score s"
  "renderedScore (updateParticles s) = renderedScore s"
  "frameCount (updateParticles s) = frameCount s"
  "isRunning (updateParticles s) = isRunning s"
  by (simp_all add: updateParticles_def)

lemma updateScore_proj:
  "player (stateRef (updateScore c)) = player (stateRef c)"
  "enemy (stateRef (updateScore c)) = enemy (stateRef c)"
  "obstacles (stateRef (updateScore c)) = obstacles (stateRef c)"
  "particles (stateRef (updateScore c)) = particles (stateRef c)"
  "gameSpeed (stateRef (updateScore c)) = gameSpeed (stateRef c)"
  "frameCount (stateRef (updateScore c)) = frameCount (stateRef c)"
  "isRunning (stateRef (updateScore c)) = isRunning (stateRef c)"
  "score (stateRef (updateScore c)) = score (stateRef c) + 1 / 10"
  "gameState (updateScore c) = gameState c"
  "highScore (updateScore c) = highScore c"
  "balance (updateScore c) = balance c"
  "pointsAddedRef (updateScore c) = pointsAddedRef c"
  "canvasHeight (updateScore c) = canvasHeight c"
  "showWithdraw (updateScore c) = showWithdraw c"
  "withdrawSuccess (updateScore c) = withdrawSuccess c"
  "showSettings (updateScore c) = showSettings c"
  by (simp_all add: updateScore_def Let_def)

lemma nextFrame_proj:
  "player (nextFrame s) = player s"
  "enemy (nextFrame s) = enemy s"
  "obstacles (nextFrame s) = obstacles s"
  "particles (nextFrame s) = particles s"
  "gameSpeed (nextFrame s) = gameSpeed s"
  "score (nextFrame s) = score s"
  "renderedScore (nextFrame s) = renderedScore s"
  "isRunning (nextFrame s) = isRunning s"
  "frameCount (nextFrame s) = frameCount s + 1"
  by (simp_all add: nextFrame_def)

lemmas phase_proj =
  difficultyScaling_proj movePlayer_proj playerPhysics_proj enemyDrift_proj spawnObstacle_proj
  removeOldObstacle_proj collisionDetection_proj enemyCatchCheck_proj updateParticles_proj
  updateScore_proj nextFrame_proj

subsection \<open>The tick, phase by phase\<close>

lemma beforeCollision_proj:
  "player (fst (beforeCollision rnd c)) =
     player (playerPhysics (canvasHeight c) (movePlayer (difficultyScaling (stateRef c))))"
  "enemy (fst (beforeCollision rnd c)) = enemy (enemyDrift (stateRef c))"
  "particles (fst (beforeCollision rnd c)) = particles (stateRef c)"
  "gameSpeed (fst (beforeCollision rnd c)) = gameSpeed (difficultyScaling (stateRef c))"
  "score (fst (beforeCollision rnd c)) = score (stateRef c)"
  "renderedScore (fst (beforeCollision rnd c)) = renderedScore (stateRef c)"
  "frameCount (fst (beforeCollision rnd c)) = frameCount (stateRef c)"
  "isRunning (fst (beforeCollision rnd c)) = isRunning (stateRef c)"
  by (simp_all add: beforeCollision_def split_beta phase_proj)
     (simp_all add: enemyDrift_def phase_proj)

lemma loop_running:
  "isRunning (stateRef c) \<Longrightarrow>
   loop rnd c =
     (let c1 = fst (afterCollision rnd c);
          c2 = enemyCatchCheck rnd (snd (afterCollision rnd c)) c1;
          c3 = updateScore (c2\<lparr>stateRef := updateParticles (stateRef c2)\<rparr>)
      in c3\<lparr>stateRef := nextFrame (stateRef c3)\<rparr>)"
  by (simp add: loop_def split_beta Let_def)

lemma afterCollision_proj:
  "player (stateRef (fst (afterCollision rnd c))) = player (fst (beforeCollision rnd c))"
  "gameSpeed (stateRef (fst (afterCollision rnd c))) = gameSpeed (fst (beforeCollision rnd c))"
  "score (stateRef (fst (afterCollision rnd c))) = score (stateRef c)"
  "renderedScore (stateRef (fst (afterCollision rnd c))) = renderedScore (stateRef c)"
  "frameCount (stateRef (fst (afterCollision rnd c))) = frameCount (stateRef c)"
  "score_ui (fst (afterCollision rnd c)) = score_ui c"
  "balance (fst (afterCollision rnd c)) = balance c"
  "pointsAddedRef (fst (afterCollision rnd c)) = pointsAddedRef c"
  "canvasHeight (fst (afterCollision rnd c)) = canvasHeight c"
  "showWithdraw (fst (afterCollision rnd c)) = showWithdraw c"
  "withdrawSuccess (fst (afterCollision rnd c)) = withdrawSuccess c"
  "showSettings (fst (afterCollision rnd c)) = showSettings c"
  by (simp_all add: afterCollision_def split_beta collisionDetection_proj beforeCollision_proj)

lemma loop_player:
  "isRunning (stateRef c) \<Longrightarrow>
   player (stateRef (loop rnd c)) =
     player (playerPhysics (canvasHeight c) (movePlayer (difficultyScaling (stateRef c))))"
  by (simp add: loop_running Let_def phase_proj afterCollision_proj beforeCollision_proj)

lemma loop_gameSpeed:
  "isRunning (stateRef c) \<Longrightarrow>
   gameSpeed (stateRef (loop rnd c)) = gameSpeed (difficultyScaling (stateRef c))"
  by (simp add: loop_running Let_def phase_proj afterCollision_proj beforeCollision_proj)

subsection \<open>The world advance\<close>

text \<open>
  Claim C1. In a tick run while \<open>isRunning\<close> is true, the player's \<open>worldX\<close> after the
  tick is its value before the tick plus \<open>gameSpeed\<close> as that tick has it: the speed
  that \<open>movePlayer\<close> adds is the one left by the difficulty step of the same tick, which
  is also the speed the tick ends with. No other phase of the tick changes \<open>worldX\<close>:
  not the difficulty step, the physics, the enemy drift, the spawning, the eviction, the
  collision loop, the catch check, the particles, the score or the frame counter.
\<close>

theorem loop_moves_player_by_gameSpeed:
  assumes "isRunning (stateRef c)"
  shows "worldX (player (stateRef (loop rnd c))) =
           worldX (player (stateRef c)) + gameSpeed (stateRef (loop rnd c))
         \<and> gameSpeed (stateRef (loop rnd c)) = gameSpeed (difficultyScaling (stateRef c))
         \<and> worldX (player (movePlayer s)) = worldX (player s) + gameSpeed s
         \<and> worldX (player (difficultyScaling s)) = worldX (player s)
         \<and> worldX (player (playerPhysics h s)) = worldX (player s)
         \<and> worldX (player (enemyDrift s)) = worldX (player s)
         \<and> worldX (player (fst (spawnObstacle rnd h s))) = worldX (player s)
         \<and> worldX (player (removeOldObstacle s)) = worldX (player s)
         \<and> worldX (player (stateRef (fst (collisionDetection rnd k d)))) = worldX (player (stateRef d))
         \<and> worldX (player (stateRef (enemyCatchCheck rnd k d))) = worldX (player (stateRef d))
         \<and> worldX (player (updateParticles s)) = worldX (player s)
         \<and> worldX (player (stateRef (updateScore d))) = worldX (player (stateRef d))
         \<and> worldX (player (nextFrame s)) = worldX (player s)"
  using assms by (simp add: loop_player loop_gameSpeed phase_proj)

theorem loop_moves_player_by_gameSpeed_witness:
  "isRunning (stateRef (resetGame (resize 800 initialComponent)))
   \<and> worldX (player (stateRef (resetGame (resize 800 initialComponent)))) = 0
   \<and> gameSpeed (stateRef (loop (\<lambda>_. 1 / 2) (resetGame (resize 800 initialComponent)))) = 21 / 2
   \<and> worldX (player (stateRef (loop (\<lambda>_. 1 / 2) (resetGame (resize 800 initialComponent))))) = 21 / 2"
proof -
  let ?c = "resetGame (resize 800 initialComponent)"
  have run: "isRunning (stateRef ?c)"
    by (simp add: resetGame_def)
  have x0: "worldX (player (stateRef ?c)) = 0"
    by (simp add: resetGame_def)
  have g: "gameSpeed (difficultyScaling (stateRef ?c)) = 21 / 2"
    by (simp add: resetGame_def difficultyScaling_def INITIAL_GAME_SPEED_def)
  from loop_moves_player_by_gameSpeed [OF run, of "\<lambda>_. 1 / 2"] run x0 g
  show ?thesis by simp
qed

subsection \<open>How a tick ends\<close>

lemma unmarked_obstacles:
  "newHits p obs = [] \<Longrightarrow>
   map (\<lambda>obs. if \<not> collided obs \<and> hits p obs then obs\<lparr>collided := True\<rparr> else obs) obs = obs"
  by (induction obs) (auto simp add: newHits_def split: if_splits)

lemma afterCollision_miss:
  assumes "newHits (player (fst (beforeCollision rnd c))) (obstacles (fst (beforeCollision rnd c))) = []"
  shows "fst (afterCollision rnd c) = c\<lparr>stateRef := fst (beforeCollision rnd c)\<rparr>"
  using assms
  by (simp add: afterCollision_def collisionDetection_def split_beta collisionLoop_miss
      collisionLoop_obstacles unmarked_obstacles)

lemma afterCollision_hit:
  assumes "newHits (player (fst (beforeCollision rnd c))) (obstacles (fst (beforeCollision rnd c))) \<noteq> []"
  shows "ended (fst (afterCollision rnd c))"
proof -
  let ?b = "fst (beforeCollision rnd c)"
  let ?k = "snd (beforeCollision rnd c)"
  have "ended (snd (snd (collisionLoop rnd (obstacles ?b) ?k (c\<lparr>stateRef := ?b\<rparr>))))"
    using assms by (intro collisionLoop_hit) simp
  then show ?thesis
    by (simp add: afterCollision_def collisionDetection_def split_beta ended_def)
qed

lemma afterCollision_obstacles:
  "map ox (obstacles (stateRef (fst (afterCollision rnd c)))) =
     map ox (obstacles (fst (beforeCollision rnd c)))"
  by (simp add: afterCollision_def collisionDetection_def split_beta collisionLoop_obstacles
      comp_def if_distrib [of ox] cong: if_cong)

lemma loop_tail:
  assumes "isRunning (stateRef c)"
  shows "isRunning (stateRef (loop rnd c)) =
           isRunning (stateRef (enemyCatchCheck rnd (snd (afterCollision rnd c)) (fst (afterCollision rnd c))))"
    and "gameState (loop rnd c) =
           gameState (enemyCatchCheck rnd (snd (afterCollision rnd c)) (fst (afterCollision rnd c)))"
    and "enemy (stateRef (loop rnd c)) = enemy (stateRef (fst (afterCollision rnd c)))"
    and "obstacles (stateRef (loop rnd c)) = obstacles (stateRef (fst (afterCollision rnd c)))"
  using assms by (simp_all add: loop_running Let_def phase_proj)

lemma enemyCatchCheck_ends:
  "isRunning (stateRef (enemyCatchCheck rnd k c)) =
     (isRunning (stateRef c) \<and> \<not> distance (enemy (stateRef c)) \<le> ENEMY_CATCH_DISTANCE)"
  "gameState (enemyCatchCheck rnd k c) =
     (if distance (enemy (stateRef c)) \<le> ENEMY_CATCH_DISTANCE then GAME_OVER else gameState c)"
  by (simp_all add: enemyCatchCheck_def endRun_proj)

lemma loop_hit:
  assumes "isRunning (stateRef c)"
    and "newHits (player (fst (beforeCollision rnd c))) (obstacles (fst (beforeCollision rnd c))) \<noteq> []"
  shows "ended (loop rnd c)"
proof -
  have "ended (fst (afterCollision rnd c))"
    using assms(2) by (rule afterCollision_hit)
  then show ?thesis
    using assms(1)
    by (simp add: ended_def loop_tail enemyCatchCheck_ends ENEMY_CATCH_DISTANCE_def)
qed

lemma loop_miss:
  assumes "isRunning (stateRef c)"
    and "newHits (player (fst (beforeCollision rnd c))) (obstacles (fst (beforeCollision rnd c))) = []"
  shows "enemy (stateRef (loop rnd c)) = enemy (enemyDrift (stateRef c))"
    and "isRunning (stateRef (loop rnd c)) =
           (\<not> distance (enemy (enemyDrift (stateRef c))) \<le> ENEMY_CATCH_DISTANCE)"
    and "gameState (loop rnd c) =
           (if distance (enemy (enemyDrift (stateRef c))) \<le> ENEMY_CATCH_DISTANCE
            then GAME_OVER else gameState c)"
  using assms
  by (simp_all add: loop_tail afterCollision_miss enemyCatchCheck_ends beforeCollision_proj)

lemma enemyDrift_distance:
  "distance (enemy s) \<le> distance (enemy (enemyDrift s))"
  by (simp add: enemyDrift_def ENEMY_RECOVERY_RATE_def)

subsection \<open>Running and playing\<close>

lemma loop_running_iff_playing:
  assumes "isRunning (stateRef c) \<longleftrightarrow> gameState c = PLAYING"
  shows "isRunning (stateRef (loop rnd c)) \<longleftrightarrow> gameState (loop rnd c) = PLAYING"
proof (cases "isRunning (stateRef c)")
  case False
  with assms show ?thesis by (simp add: loop_def)
next
  case True
  show ?thesis
  proof (cases "newHits (player (fst (beforeCollision rnd c))) (obstacles (fst (beforeCollision rnd c))) = []")
    case True
    with \<open>isRunning (stateRef c)\<close> assms show ?thesis
      by (simp add: loop_miss)
  next
    case False
    with \<open>isRunning (stateRef c)\<close> have "ended (loop rnd c)"
      by (rule loop_hit)
    then show ?thesis by (simp add: ended_def)
  qed
qed

lemma reachable_running_iff_playing:
  "reachable c \<Longrightarrow> isRunning (stateRef c) \<longleftrightarrow> gameState c = PLAYING"
proof (induction rule: reachable.induct)
  case reachable_init
  show ?case by (simp add: initialComponent_def initialState_def)
next
  case (reachable_step c e)
  then show ?case
    by (cases e)
       (simp_all add: loop_running_iff_playing resize_def resetGame_def handleKeyDown_def
          onAnimationStart_def withdraw_def loadBalance_def Let_def split: option.splits)
qed

subsection \<open>The order of the obstacles\<close>

lemma strict_sorted_le_last:
  fixes xs :: "real list"
  shows "sorted_wrt (<) xs \<Longrightarrow> x \<in> set xs \<Longrightarrow> x \<le> last xs"
  by (induction xs) (auto simp add: less_imp_le)

lemma spawnObstacle_result:
  assumes "0 \<le> rnd 0"
  shows "obstacles (fst (spawnObstacle rnd h s)) = obstacles s
         \<or> (\<exists>obs. obstacles (fst (spawnObstacle rnd h s)) = obstacles s @ [obs]
                \<and> ox obs = worldX (player s) + 1200
                \<and> (obstacles s \<noteq> [] \<longrightarrow> ox (last (obstacles s)) < ox obs))"
proof -
  have "600 + rnd 0 * 500 \<ge> 0"
    using assms by simp
  then show ?thesis
    by (auto simp add: spawnObstacle_def Let_def split_beta)
qed

lemma spawnObstacle_sorted:
  assumes "0 \<le> rnd 0" and "sorted_wrt (<) (map ox (obstacles s))"
  shows "sorted_wrt (<) (map ox (obstacles (fst (spawnObstacle rnd h s))))"
proof -
  from spawnObstacle_result [of rnd h s, OF assms(1)]
  consider "obstacles (fst (spawnObstacle rnd h s)) = obstacles s"
    | obs where "obstacles (fst (spawnObstacle rnd h s)) = obstacles s @ [obs]"
        and "obstacles s \<noteq> [] \<longrightarrow> ox (last (obstacles s)) < ox obs"
    by blast
  then show ?thesis
  proof cases
    case 1
    with assms(2) show ?thesis by simp
  next
    case 2
    have "x < ox obs" if "x \<in> set (map ox (obstacles s))" for x
    proof -
      from that have ne: "obstacles s \<noteq> []" by auto
      from strict_sorted_le_last [OF assms(2) that] have "x \<le> ox (last (obstacles s))"
        using ne by (simp add: last_map)
      with 2(2) ne show ?thesis by simp
    qed
    with 2(1) assms(2) show ?thesis
      by (simp add: sorted_wrt_append)
  qed
qed

lemma removeOldObstacle_result:
  "obstacles (removeOldObstacle s) = obstacles s \<or> obstacles (removeOldObstacle s) = tl (obstacles s)"
  by (simp add: removeOldObstacle_def)

lemma removeOldObstacle_sorted:
  assumes "sorted_wrt (<) (map ox (obstacles s))"
  shows "sorted_wrt (<) (map ox (obstacles (removeOldObstacle s)))"
  using assms by (cases "obstacles s") (simp_all add: removeOldObstacle_def)

lemma beforeCollision_obstacles:
  "obstacles (fst (beforeCollision rnd c)) =
     obstacles (removeOldObstacle (fst (spawnObstacle rnd (canvasHeight c)
       (enemyDrift (playerPhysics (canvasHeight c) (movePlayer (difficultyScaling (stateRef c))))))))"
  by (simp add: beforeCollision_def split_beta)

lemma loop_sorted:
  assumes "0 \<le> rnd 0" and "sorted_wrt (<) (map ox (obstacles (stateRef c)))"
  shows "sorted_wrt (<) (map ox (obstacles (stateRef (loop rnd c))))"
proof (cases "isRunning (stateRef c)")
  case False
  with assms(2) show ?thesis by (simp add: loop_def)
next
  case True
  have "sorted_wrt (<) (map ox (obstacles (fst (beforeCollision rnd c))))"
    unfolding beforeCollision_obstacles
    by (intro removeOldObstacle_sorted spawnObstacle_sorted assms(1))
       (simp add: phase_proj assms(2))
  with True show ?thesis
    by (simp add: loop_tail afterCollision_obstacles)
qed

lemma reachable_sorted:
  "reachable c \<Longrightarrow> sorted_wrt (<) (map ox (obstacles (stateRef c)))"
proof (induction rule: reachable.induct)
  case reachable_init
  show ?case by (simp add: initialComponent_def initialState_def)
next
  case (reachable_step c e)
  then show ?case
    by (cases e)
       (simp_all add: loop_sorted validRandom_def resize_def resetGame_def handleKeyDown_def
          onAnimationStart_def withdraw_def loadBalance_def Let_def split: option.splits)
qed

subsection \<open>The pursuer\<close>

lemma loop_distance:
  assumes "isRunning (stateRef c) \<longrightarrow> 300 \<le> distance (enemy (stateRef c))"
  shows "isRunning (stateRef (loop rnd c)) \<longrightarrow> 300 \<le> distance (enemy (stateRef (loop rnd c)))"
proof (cases "isRunning (stateRef c)")
  case False
  then show ?thesis by (simp add: loop_def)
next
  case True
  show ?thesis
  proof (cases "newHits (player (fst (beforeCollision rnd c))) (obstacles (fst (beforeCollision rnd c))) = []")
    case True
    from \<open>isRunning (stateRef c)\<close> assms enemyDrift_distance [of "stateRef c"]
    have "300 \<le> distance (enemy (enemyDrift (stateRef c)))" by simp
    with True \<open>isRunning (stateRef c)\<close> show ?thesis
      by (simp add: loop_miss)
  next
    case False
    with \<open>isRunning (stateRef c)\<close> have "ended (loop rnd c)"
      by (rule loop_hit)
    then show ?thesis by (simp add: ended_def)
  qed
qed

lemma reachable_distance:
  "reachable c \<Longrightarrow> isRunning (stateRef c) \<longrightarrow> 300 \<le> distance (enemy (stateRef c))"
proof (induction rule: reachable.induct)
  case reachable_init
  show ?case by (simp add: initialComponent_def initialState_def)
next
  case (reachable_step c e)
  then show ?case
    by (cases e)
       (simp_all add: loop_distance resize_def resetGame_def handleKeyDown_def
          onAnimationStart_def withdraw_def loadBalance_def Let_def split: option.splits)
qed

subsection \<open>Evaluating a tick\<close>

lemmas tick_defs =
  loop_def afterCollision_def beforeCollision_def difficultyScaling_def movePlayer_def
  playerPhysics_def enemyDrift_def spawnObstacle_def removeOldObstacle_def hits_def
  collisionDetection_def enemyCatchCheck_def endRun_def createExplosion_def
  updateParticles_def moveParticle_def updateScore_def nextFrame_def Let_def split_beta

lemma reachable_reset: "reachable (resetGame (resize 800 initialComponent))"
proof -
  have "reachable (dispatch Reset (dispatch (Resize 800) initialComponent))"
    by (intro reachable_step reachable_init) simp_all
  then show ?thesis by simp
qed

subsection \<open>The pursuer never closes in\<close>

text \<open>
  Claim C10. In every reachable component with \<open>isRunning\<close> true the pursuer's distance
  is at least 300, the value \<open>resetGame\<close> gives it. A running tick in which the
  collision loop marks no obstacle does not decrease the distance; a tick in which it
  marks one leaves the distance at 0 and the run stopped; a key press does not change
  the distance. So in a running tick of a reachable component the condition of the catch
  check (distance at most \<open>ENEMY_CATCH_DISTANCE\<close>, read after the collision loop) holds
  exactly when the collision loop of the same tick has marked an obstacle: the catch
  check is never what ends a run on its own.
\<close>

theorem enemy_distance:
  "(reachable c \<and> isRunning (stateRef c) \<longrightarrow> 300 \<le> distance (enemy (stateRef c)))
   \<and> (isRunning (stateRef c) \<and>
        newHits (player (fst (beforeCollision rnd c))) (obstacles (fst (beforeCollision rnd c))) = []
        \<longrightarrow> distance (enemy (stateRef c)) \<le> distance (enemy (stateRef (loop rnd c))))
   \<and> (isRunning (stateRef c) \<and>
        newHits (player (fst (beforeCollision rnd c))) (obstacles (fst (beforeCollision rnd c))) \<noteq> []
        \<longrightarrow> distance (enemy (stateRef (loop rnd c))) = 0 \<and> \<not> isRunning (stateRef (loop rnd c)))
   \<and> distance (enemy (stateRef (handleKeyDown code c))) = distance (enemy (stateRef c))
   \<and> (reachable c \<and> isRunning (stateRef c) \<longrightarrow>
        (distance (enemy (stateRef (fst (afterCollision rnd c)))) \<le> ENEMY_CATCH_DISTANCE
         \<longleftrightarrow> newHits (player (fst (beforeCollision rnd c)))
               (obstacles (fst (beforeCollision rnd c))) \<noteq> []))"
proof (intro conjI impI)
  let ?b = "fst (beforeCollision rnd c)"
  show "300 \<le> distance (enemy (stateRef c))" if "reachable c \<and> isRunning (stateRef c)"
    using that reachable_distance by blast
  show "distance (enemy (stateRef c)) \<le> distance (enemy (stateRef (loop rnd c)))"
    if "isRunning (stateRef c) \<and> newHits (player ?b) (obstacles ?b) = []"
    using that enemyDrift_distance [of "stateRef c"] by (simp add: loop_miss)
  show "distance (enemy (stateRef (loop rnd c))) = 0"
    and "\<not> isRunning (stateRef (loop rnd c))"
    if "isRunning (stateRef c) \<and> newHits (player ?b) (obstacles ?b) \<noteq> []"
    using that loop_hit [of c rnd] by (simp_all add: ended_def)
  show "distance (enemy (stateRef (handleKeyDown code c))) = distance (enemy (stateRef c))"
    by (simp add: handleKeyDown_def)
  show "distance (enemy (stateRef (fst (afterCollision rnd c)))) \<le> ENEMY_CATCH_DISTANCE
        \<longleftrightarrow> newHits (player ?b) (obstacles ?b) \<noteq> []"
    if reach: "reachable c \<and> isRunning (stateRef c)"
  proof (cases "newHits (player ?b) (obstacles ?b) = []")
    case True
    from reach reachable_distance have "300 \<le> distance (enemy (stateRef c))" by blast
    with enemyDrift_distance [of "stateRef c"]
    have "300 \<le> distance (enemy (enemyDrift (stateRef c)))" by simp
    with True show ?thesis
      by (simp add: afterCollision_miss beforeCollision_proj ENEMY_CATCH_DISTANCE_def)
  next
    case False
    then have "ended (fst (afterCollision rnd c))" by (rule afterCollision_hit)
    with False show ?thesis
      by (simp add: ended_def ENEMY_CATCH_DISTANCE_def)
  qed
qed

theorem enemy_distance_witness:
  "reachable (resetGame (resize 800 initialComponent))
   \<and> isRunning (stateRef (resetGame (resize 800 initialComponent)))
   \<and> distance (enemy (stateRef (resetGame (resize 800 initialComponent)))) = 300
   \<and> newHits (player (fst (beforeCollision (\<lambda>_. 1 / 2) (resetGame (resize 800 initialComponent)))))
        (obstacles (fst (beforeCollision (\<lambda>_. 1 / 2) (resetGame (resize 800 initialComponent))))) = []
   \<and> distance (enemy (stateRef (loop (\<lambda>_. 1 / 2) (resetGame (resize 800 initialComponent))))) = 601 / 2
   \<and> \<not> distance (enemy (stateRef (fst (afterCollision (\<lambda>_. 1 / 2)
          (resetGame (resize 800 initialComponent)))))) \<le> ENEMY_CATCH_DISTANCE"
proof -
  let ?r = "\<lambda>_::nat. 1 / 2 :: real"
  let ?c = "resetGame (resize 800 initialComponent)"
  have run: "isRunning (stateRef ?c)"
    by (simp add: resetGame_def)
  have d: "distance (enemy (stateRef ?c)) = 300"
    by (simp add: resetGame_def)
  have miss: "newHits (player (fst (beforeCollision ?r ?c))) (obstacles (fst (beforeCollision ?r ?c))) = []"
    by (simp add: newHits_def tick_defs resetGame_def)
  have d': "distance (enemy (stateRef (loop ?r ?c))) = 601 / 2"
    by (simp add: tick_defs newHits_def resetGame_def resize_def initialComponent_def
        initialState_def constants)
  from enemy_distance [of ?c ?r] reachable_reset run d miss d' show ?thesis
    by simp
qed

subsection \<open>The jump\<close>

text \<open>
  Claim C6. A key press changes the component exactly when the key is a jump key
  (\<^verbatim>\<open>Space\<close> or \<^verbatim>\<open>ArrowUp\<close>), the player is grounded and the run is running; it then sets
  \<open>vy\<close> to \<open>JUMP_FORCE\<close>, which is negative, and \<open>grounded\<close> to false, and changes
  nothing else. A key press while \<open>grounded\<close> is false leaves the whole component as
  it is, \<open>vy\<close> included, and the component has no queue that could hold it. In a
  reachable component, running is the same as the session being \<open>PLAYING\<close>.
\<close>

theorem handleKeyDown_jump:
  "(handleKeyDown code c \<noteq> c \<longleftrightarrow>
      (code = ''Space'' \<or> code = ''ArrowUp'')
      \<and> grounded (player (stateRef c)) \<and> isRunning (stateRef c))
   \<and> ((code = ''Space'' \<or> code = ''ArrowUp'')
        \<and> grounded (player (stateRef c)) \<and> isRunning (stateRef c) \<longrightarrow>
        handleKeyDown code c =
          c\<lparr>stateRef := (stateRef c)\<lparr>player :=
               (player (stateRef c))\<lparr>vy := JUMP_FORCE, grounded := False\<rparr>\<rparr>\<rparr>)
   \<and> (\<not> grounded (player (stateRef c)) \<longrightarrow> handleKeyDown code c = c)
   \<and> (reachable c \<longrightarrow> (isRunning (stateRef c) \<longleftrightarrow> gameState c = PLAYING))
   \<and> JUMP_FORCE < 0"
proof (intro conjI impI)
  let ?jump = "c\<lparr>stateRef := (stateRef c)\<lparr>player :=
                 (player (stateRef c))\<lparr>vy := JUMP_FORCE, grounded := False\<rparr>\<rparr>\<rparr>"
  have changed: "?jump \<noteq> c" if "grounded (player (stateRef c))"
  proof
    assume "?jump = c"
    then have "grounded (player (stateRef ?jump)) = grounded (player (stateRef c))"
      by simp
    with that show False by simp
  qed
  show "handleKeyDown code c \<noteq> c \<longleftrightarrow>
          (code = ''Space'' \<or> code = ''ArrowUp'')
          \<and> grounded (player (stateRef c)) \<and> isRunning (stateRef c)"
    using changed unfolding handleKeyDown_def by (simp del: One_nat_def)
  show "handleKeyDown code c = ?jump"
    if "(code = ''Space'' \<or> code = ''ArrowUp'')
        \<and> grounded (player (stateRef c)) \<and> isRunning (stateRef c)"
    using that by (simp add: handleKeyDown_def)
  show "handleKeyDown code c = c" if "\<not> grounded (player (stateRef c))"
    using that by (simp add: handleKeyDown_def)
  show "isRunning (stateRef c) \<longleftrightarrow> gameState c = PLAYING" if "reachable c"
    using that by (rule reachable_running_iff_playing)
  show "JUMP_FORCE < 0"
    by (simp add: JUMP_FORCE_def)
qed

theorem handleKeyDown_jump_witness:
  "reachable (resetGame (resize 800 initialComponent))
   \<and> gameState (resetGame (resize 800 initialComponent)) = PLAYING
   \<and> grounded (player (stateRef (resetGame (resize 800 initialComponent))))
   \<and> vy (player (stateRef (handleKeyDown ''Space'' (resetGame (resize 800 initialComponent))))) = - 20
   \<and> \<not> grounded (player (stateRef (handleKeyDown ''Space'' (resetGame (resize 800 initialComponent)))))
   \<and> handleKeyDown ''ArrowUp'' (handleKeyDown ''Space'' (resetGame (resize 800 initialComponent)))
       = handleKeyDown ''Space'' (resetGame (resize 800 initialComponent))"
proof -
  let ?c = "resetGame (resize 800 initialComponent)"
  have run: "isRunning (stateRef ?c)" and gr: "grounded (player (stateRef ?c))"
    by (simp_all add: resetGame_def)
  have jump: "handleKeyDown ''Space'' ?c =
      ?c\<lparr>stateRef := (stateRef ?c)\<lparr>player :=
            (player (stateRef ?c))\<lparr>vy := JUMP_FORCE, grounded := False\<rparr>\<rparr>\<rparr>"
    using handleKeyDown_jump [of "''Space''" ?c] run gr by blast
  have air: "\<not> grounded (player (stateRef (handleKeyDown ''Space'' ?c)))"
    by (simp add: jump)
  from handleKeyDown_jump [of "''ArrowUp''" "handleKeyDown ''Space'' ?c"] air
  have again: "handleKeyDown ''ArrowUp'' (handleKeyDown ''Space'' ?c) = handleKeyDown ''Space'' ?c"
    by blast
  from handleKeyDown_jump [of "''Space''" ?c] reachable_reset run
  have playing: "gameState ?c = PLAYING" by blast
  from reachable_reset playing gr air again show ?thesis
    by (simp add: jump JUMP_FORCE_def)
qed

subsection \<open>Withdrawal\<close>

text \<open>
  Claim C7. A click on the withdrawal button succeeds exactly when the balance is at
  least \<open>MIN_WITHDRAWAL_POINTS\<close>, which is 1000 (a \<open>NaN\<close> balance is not): it then
  sets the balance to 0, raises the success dialog and closes the withdrawal dialog;
  otherwise it changes nothing. With a balance of 1000 it succeeds; with 999 it is
  rejected and the balance stays 999.
\<close>

theorem withdraw_threshold:
  "(ge_balance (balance c) MIN_WITHDRAWAL_POINTS \<longrightarrow>
      withdraw c = c\<lparr>withdrawSuccess := True, showWithdraw := False, balance := Num 0\<rparr>)
   \<and> (\<not> ge_balance (balance c) MIN_WITHDRAWAL_POINTS \<longrightarrow> withdraw c = c)
   \<and> (ge_balance (Num b) MIN_WITHDRAWAL_POINTS \<longleftrightarrow> 1000 \<le> b)
   \<and> \<not> ge_balance NaN MIN_WITHDRAWAL_POINTS
   \<and> (balance c = Num 1000 \<longrightarrow> balance (withdraw c) = Num 0 \<and> withdrawSuccess (withdraw c))
   \<and> (balance c = Num 999 \<longrightarrow> withdraw c = c)"
  by (simp add: withdraw_def MIN_WITHDRAWAL_POINTS_def)

theorem withdraw_threshold_witness:
  "balance (withdraw (initialComponent\<lparr>balance := Num 1000\<rparr>)) = Num 0
   \<and> withdrawSuccess (withdraw (initialComponent\<lparr>balance := Num 1000\<rparr>))
   \<and> withdraw (initialComponent\<lparr>balance := Num 999\<rparr>) = initialComponent\<lparr>balance := Num 999\<rparr>"
  using withdraw_threshold [of "initialComponent\<lparr>balance := Num 1000\<rparr>"]
    withdraw_threshold [of "initialComponent\<lparr>balance := Num 999\<rparr>"]
  by simp

subsection \<open>The overlap test\<close>

text \<open>
  Claim C8, as stated, fails. The player stands at \<open>worldX = 1176\<close> on the ground of an
  800 pixel canvas, and an untriggered trap lies at \<open>x = 1221\<close>: the test of the
  collision loop is true, while the two boxes, each shrunk inward by the padding of 10,
  do not overlap (the player's box then ends at 1226, the trap's begins at 1231).
\<close>

theorem collision_both_shrunk_counterexample:
  "hits \<lparr>worldX = 1176, py = 620, vy = 0, pw = 60, ph = 60, grounded = True,
          lastCollisionTime = 0\<rparr>
        \<lparr>ox = 1221, oy = 635, ow = 60, oh = 45, collided = False\<rparr>
   \<and> \<not> overlap
        (shrink 10 (playerBox \<lparr>worldX = 1176, py = 620, vy = 0, pw = 60, ph = 60,
                                grounded = True, lastCollisionTime = 0\<rparr>))
        (shrink 10 (obstacleBox \<lparr>ox = 1221, oy = 635, ow = 60, oh = 45, collided = False\<rparr>))"
  by (simp add: hits_def overlap_def shrink_def playerBox_def obstacleBox_def)

text \<open>The padding is subtracted once per compared pair of edges, from the obstacle's side.\<close>

lemma hits_overlap: "hits p obs \<longleftrightarrow> overlap (playerBox p) (shrink 10 (obstacleBox obs))"
  by (auto simp add: hits_def overlap_def shrink_def playerBox_def obstacleBox_def)

text \<open>
  Claim C8, amended. The test of the collision loop is the overlap of the player's
  whole hitbox with the obstacle's box shrunk inward by the padding of 10 on all sides;
  only the obstacle's box is shrunk. The loop applies this test to every obstacle that
  is not yet triggered, and marks exactly those that pass it.
\<close>

theorem collision_test_shrinks_obstacle:
  "(hits p obs \<longleftrightarrow> overlap (playerBox p) (shrink 10 (obstacleBox obs)))
   \<and> obstacles (stateRef (fst (collisionDetection rnd k c))) =
       map (\<lambda>obs. if \<not> collided obs
                      \<and> overlap (playerBox (player (stateRef c))) (shrink 10 (obstacleBox obs))
                   then obs\<lparr>collided := True\<rparr> else obs)
           (obstacles (stateRef c))"
  by (simp add: collisionDetection_def split_beta collisionLoop_obstacles hits_overlap)

theorem collision_test_shrinks_obstacle_witness:
  "overlap
     (playerBox \<lparr>worldX = 1176, py = 620, vy = 0, pw = 60, ph = 60, grounded = True,
                 lastCollisionTime = 0\<rparr>)
     (shrink 10 (obstacleBox \<lparr>ox = 1221, oy = 635, ow = 60, oh = 45, collided = False\<rparr>))
   \<and> hits \<lparr>worldX = 1176, py = 620, vy = 0, pw = 60, ph = 60, grounded = True,
            lastCollisionTime = 0\<rparr>
          \<lparr>ox = 1221, oy = 635, ow = 60, oh = 45, collided = False\<rparr>"
proof -
  have "overlap
     (playerBox \<lparr>worldX = 1176, py = 620, vy = 0, pw = 60, ph = 60, grounded = True,
                 lastCollisionTime = 0\<rparr>)
     (shrink 10 (obstacleBox \<lparr>ox = 1221, oy = 635, ow = 60, oh = 45, collided = False\<rparr>))"
    by (simp add: overlap_def shrink_def playerBox_def obstacleBox_def)
  with collision_test_shrinks_obstacle
    [of "\<lparr>worldX = 1176, py = 620, vy = 0, pw = 60, ph = 60, grounded = True,
          lastCollisionTime = 0\<rparr>" "\<lparr>ox = 1221, oy = 635, ow = 60, oh = 45, collided = False\<rparr>"]
  show ?thesis by blast
qed

subsection \<open>One tick from speed 10\<close>

text \<open>
  Claim C5, as stated, fails. The component right after \<open>resetGame\<close> on an 800 pixel
  canvas has \<open>gameSpeed = 10\<close>, \<open>worldX = 0\<close> and the player at rest on the ground
  line. After one tick with no key press and no spawn, \<open>worldX\<close> is 10.5 (the frame
  counter is 0, so the difficulty step adds 0.5 to the speed first), and \<open>vy\<close> is 0,
  not the gravity constant: the ground clamp has reset it.
\<close>

theorem first_tick_counterexample:
  "gameSpeed (stateRef (resetGame (resize 800 initialComponent))) = 10
   \<and> worldX (player (stateRef (resetGame (resize 800 initialComponent)))) = 0
   \<and> vy (player (stateRef (resetGame (resize 800 initialComponent)))) = 0
   \<and> grounded (player (stateRef (resetGame (resize 800 initialComponent))))
   \<and> worldX (player (stateRef (loop (\<lambda>_. 1 / 2) (resetGame (resize 800 initialComponent))))) = 21 / 2
   \<and> vy (player (stateRef (loop (\<lambda>_. 1 / 2) (resetGame (resize 800 initialComponent))))) = 0
   \<and> obstacles (stateRef (loop (\<lambda>_. 1 / 2) (resetGame (resize 800 initialComponent)))) = []
   \<and> \<not> (worldX (player (stateRef (loop (\<lambda>_. 1 / 2) (resetGame (resize 800 initialComponent))))) = 10
        \<and> vy (player (stateRef (loop (\<lambda>_. 1 / 2) (resetGame (resize 800 initialComponent)))))
            = vy (player (stateRef (resetGame (resize 800 initialComponent)))) + GRAVITY
        \<and> grounded (player (stateRef (loop (\<lambda>_. 1 / 2) (resetGame (resize 800 initialComponent))))))"
  by (simp add: tick_defs resetGame_def resize_def initialComponent_def initialState_def constants)

text \<open>The two outcomes of the physics phase.\<close>

lemma playerPhysics_cases:
  "py (player s) + (vy (player s) + GRAVITY) + ph (player s) \<ge> h - PLAYER_GROUND_OFFSET \<Longrightarrow>
     grounded (player (playerPhysics h s)) \<and> vy (player (playerPhysics h s)) = 0
     \<and> py (player (playerPhysics h s)) = h - PLAYER_GROUND_OFFSET - ph (player s)"
  "py (player s) + (vy (player s) + GRAVITY) + ph (player s) < h - PLAYER_GROUND_OFFSET \<Longrightarrow>
     \<not> grounded (player (playerPhysics h s))
     \<and> vy (player (playerPhysics h s)) = vy (player s) + GRAVITY
     \<and> py (player (playerPhysics h s)) = py (player s) + (vy (player s) + GRAVITY)"
  by (simp_all add: playerPhysics_def Let_def)

text \<open>
  A reachable component whose speed is still 10 has not ticked since its reset: every
  first tick raises the speed to 10.5, and nothing lowers it but a reset.
\<close>

lemma loop_frameCount:
  "isRunning (stateRef c) \<Longrightarrow> frameCount (stateRef (loop rnd c)) = frameCount (stateRef c) + 1"
  by (simp add: loop_running Let_def phase_proj afterCollision_proj)

lemma loop_speed:
  assumes "(frameCount (stateRef c) = 0 \<and> gameSpeed (stateRef c) = 10)
           \<or> 21 / 2 \<le> gameSpeed (stateRef c)"
  shows "(frameCount (stateRef (loop rnd c)) = 0 \<and> gameSpeed (stateRef (loop rnd c)) = 10)
         \<or> 21 / 2 \<le> gameSpeed (stateRef (loop rnd c))"
proof (cases "isRunning (stateRef c)")
  case False
  with assms show ?thesis by (simp add: loop_def)
next
  case True
  from assms have "21 / 2 \<le> gameSpeed (difficultyScaling (stateRef c))"
    by (auto simp add: difficultyScaling_def)
  with True show ?thesis
    by (simp add: loop_gameSpeed)
qed

lemma reachable_speed:
  "reachable c \<Longrightarrow>
   (frameCount (stateRef c) = 0 \<and> gameSpeed (stateRef c) = 10) \<or> 21 / 2 \<le> gameSpeed (stateRef c)"
proof (induction rule: reachable.induct)
  case reachable_init
  show ?case by (simp add: initialComponent_def initialState_def INITIAL_GAME_SPEED_def)
next
  case (reachable_step c e)
  show ?case
  proof (cases e)
    case (Tick rnd)
    from loop_speed [OF reachable_step.IH, of rnd] Tick show ?thesis
      by simp
  qed (use reachable_step.IH in \<open>simp_all add: resize_def resetGame_def handleKeyDown_def
        onAnimationStart_def withdraw_def loadBalance_def Let_def INITIAL_GAME_SPEED_def
        split: option.splits\<close>)
qed

text \<open>
  Claim C5, amended. Take a reachable running state with \<open>gameSpeed = 10\<close> and
  \<open>worldX = 0\<close>; its frame counter is 0. After one tick \<open>worldX\<close> is 10.5, and so is
  \<open>gameSpeed\<close>: the difficulty step, which is due at frame 0, raises the speed before
  the advance. Gravity is added to \<open>vy\<close> before the ground clamp. If the player's bottom
  edge then reaches the ground line, the player ends grounded, on the ground line, with
  \<open>vy = 0\<close>; otherwise it ends not grounded, with \<open>vy\<close> increased by exactly
  \<open>GRAVITY\<close>. In particular a player at rest on the ground line stays where it is,
  grounded, with \<open>vy = 0\<close>.
\<close>

theorem first_tick_from_speed_10:
  assumes "reachable c"
    and "isRunning (stateRef c)"
    and "gameSpeed (stateRef c) = 10"
    and "worldX (player (stateRef c)) = 0"
  shows "frameCount (stateRef c) = 0
    \<and> gameSpeed (stateRef (loop rnd c)) = 21 / 2
    \<and> worldX (player (stateRef (loop rnd c))) = 21 / 2
    \<and> (py (player (stateRef c)) + (vy (player (stateRef c)) + GRAVITY) + ph (player (stateRef c))
          \<ge> canvasHeight c - PLAYER_GROUND_OFFSET \<longrightarrow>
        grounded (player (stateRef (loop rnd c)))
        \<and> vy (player (stateRef (loop rnd c))) = 0
        \<and> py (player (stateRef (loop rnd c)))
            = canvasHeight c - PLAYER_GROUND_OFFSET - ph (player (stateRef c)))
    \<and> (py (player (stateRef c)) + (vy (player (stateRef c)) + GRAVITY) + ph (player (stateRef c))
          < canvasHeight c - PLAYER_GROUND_OFFSET \<longrightarrow>
        \<not> grounded (player (stateRef (loop rnd c)))
        \<and> vy (player (stateRef (loop rnd c))) = vy (player (stateRef c)) + GRAVITY
        \<and> py (player (stateRef (loop rnd c)))
            = py (player (stateRef c)) + (vy (player (stateRef c)) + GRAVITY))
    \<and> (py (player (stateRef c)) + ph (player (stateRef c)) = canvasHeight c - PLAYER_GROUND_OFFSET
        \<and> vy (player (stateRef c)) = 0 \<longrightarrow>
        grounded (player (stateRef (loop rnd c)))
        \<and> vy (player (stateRef (loop rnd c))) = 0
        \<and> py (player (stateRef (loop rnd c))) = py (player (stateRef c)))"
proof -
  let ?s = "movePlayer (difficultyScaling (stateRef c))"
  from reachable_speed [OF assms(1)] assms(3) have frame: "frameCount (stateRef c) = 0"
    by simp
  have p: "player (stateRef (loop rnd c)) = player (playerPhysics (canvasHeight c) ?s)"
    using assms(2) by (rule loop_player)
  have same: "py (player ?s) = py (player (stateRef c))" "vy (player ?s) = vy (player (stateRef c))"
    "ph (player ?s) = ph (player (stateRef c))"
    by (simp_all add: phase_proj)
  have g: "gameSpeed (stateRef (loop rnd c)) = 21 / 2"
    using assms(2,3) frame by (simp add: loop_gameSpeed phase_proj)
  have x: "worldX (player (stateRef (loop rnd c))) = 21 / 2"
    using assms(3,4) frame by (simp add: p phase_proj)
  have G: "0 \<le> GRAVITY" by (simp add: GRAVITY_def)
  show ?thesis
    using frame g x playerPhysics_cases [where s = ?s and h = "canvasHeight c"] G
    unfolding p same by auto
qed

theorem first_tick_from_speed_10_witness:
  "reachable (resetGame (resize 800 initialComponent))
   \<and> isRunning (stateRef (resetGame (resize 800 initialComponent)))
   \<and> gameSpeed (stateRef (resetGame (resize 800 initialComponent))) = 10
   \<and> worldX (player (stateRef (resetGame (resize 800 initialComponent)))) = 0
   \<and> frameCount (stateRef (resetGame (resize 800 initialComponent))) = 0
   \<and> worldX (player (stateRef (loop (\<lambda>_. 1 / 2) (resetGame (resize 800 initialComponent))))) = 21 / 2
   \<and> grounded (player (stateRef (loop (\<lambda>_. 1 / 2) (resetGame (resize 800 initialComponent)))))
   \<and> vy (player (stateRef (loop (\<lambda>_. 1 / 2) (resetGame (resize 800 initialComponent))))) = 0
   \<and> py (player (stateRef (loop (\<lambda>_. 1 / 2) (resetGame (resize 800 initialComponent))))) = 620"
proof -
  let ?c = "resetGame (resize 800 initialComponent)"
  have h: "isRunning (stateRef ?c)" "gameSpeed (stateRef ?c) = 10"
    "worldX (player (stateRef ?c)) = 0"
    by (simp_all add: resetGame_def INITIAL_GAME_SPEED_def)
  have ground: "py (player (stateRef ?c)) + ph (player (stateRef ?c))
                  = canvasHeight ?c - PLAYER_GROUND_OFFSET \<and> vy (player (stateRef ?c)) = 0"
    and y: "py (player (stateRef ?c)) = 620"
    by (simp_all add: resetGame_def resize_def Let_def constants)
  from first_tick_from_speed_10 [OF reachable_reset h, of "\<lambda>_. 1 / 2"] ground
  have "frameCount (stateRef ?c) = 0"
    and "worldX (player (stateRef (loop (\<lambda>_. 1 / 2) ?c))) = 21 / 2"
    and "grounded (player (stateRef (loop (\<lambda>_. 1 / 2) ?c)))"
    and "vy (player (stateRef (loop (\<lambda>_. 1 / 2) ?c))) = 0"
    and "py (player (stateRef (loop (\<lambda>_. 1 / 2) ?c))) = py (player (stateRef ?c))"
    by blast+
  with reachable_reset h y show ?thesis
    by simp
qed

subsection \<open>Loading the balance\<close>

text \<open>
  Claim C9 against the code. An absent or empty stored value leaves the balance at 0,
  and a stored decimal integer is loaded. A stored value without a leading integer,
  such as \<^verbatim>\<open>abc\<close> or \<^verbatim>\<open>NaN\<close>, makes the balance \<open>NaN\<close>, where the claim has 0.
\<close>

theorem loadBalance_corrupt:
  "balance (loadBalance (Some ''abc'') initialComponent) = NaN
   \<and> balance (loadBalance (Some ''NaN'') initialComponent) = NaN
   \<and> balance (loadBalance None initialComponent) = Num 0
   \<and> balance (loadBalance (Some '''') initialComponent) = Num 0
   \<and> balance (loadBalance (Some ''1500'') initialComponent) = Num 1500"
  by (simp add: loadBalance_def parseInt_def isWhiteSpace_def isDigit_def digitsValue_def
      initialComponent_def)

subsection \<open>What holds throughout a session\<close>

lemma loop_proj:
  "balance (loop rnd c) = balance c"
  "pointsAddedRef (loop rnd c) = pointsAddedRef c"
  "canvasHeight (loop rnd c) = canvasHeight c"
  "showWithdraw (loop rnd c) = showWithdraw c"
  "withdrawSuccess (loop rnd c) = withdrawSuccess c"
  "showSettings (loop rnd c) = showSettings c"
  by (simp_all add: loop_def Let_def split_beta phase_proj afterCollision_proj)

lemma gap_sorted_le_last:
  fixes xs :: "real list"
  shows "sorted_wrt (\<lambda>a b. a + 600 < b) xs \<Longrightarrow> x \<in> set xs \<Longrightarrow> x \<le> last xs"
proof (induction xs)
  case Nil
  then show ?case by simp
next
  case (Cons a xs)
  show ?case
  proof (cases "xs = []")
    case True
    with Cons.prems show ?thesis by simp
  next
    case False
    then have "last xs \<in> set xs" by simp
    with Cons.prems have far: "a + 600 < last xs" by simp
    from Cons.prems have "x = a \<or> x \<in> set xs" by auto
    then show ?thesis
    proof
      assume "x = a"
      with far False show ?thesis by simp
    next
      assume "x \<in> set xs"
      with Cons False show ?thesis by simp
    qed
  qed
qed

lemma spawnObstacle_gap:
  assumes "0 \<le> rnd 0" and "sorted_wrt (\<lambda>a b. a + 600 < b) (map ox (obstacles s))"
  shows "sorted_wrt (\<lambda>a b. a + 600 < b) (map ox (obstacles (fst (spawnObstacle rnd h s))))"
proof (cases "obstacles (fst (spawnObstacle rnd h s)) = obstacles s")
  case True
  with assms(2) show ?thesis by simp
next
  case False
  then have new: "obstacles (fst (spawnObstacle rnd h s)) =
      obstacles s @ [\<lparr>ox = worldX (player s) + 1200, oy = (h - PLAYER_GROUND_OFFSET) - 45,
                       ow = 60, oh = 45, collided = False\<rparr>]"
    and gap: "obstacles s \<noteq> [] \<longrightarrow>
          worldX (player s) + 1200 - ox (last (obstacles s)) > 600 + rnd 0 * 500"
    by (auto simp add: spawnObstacle_def Let_def split_beta split: if_splits)
  have "x + 600 < worldX (player s) + 1200" if "x \<in> set (map ox (obstacles s))" for x
  proof -
    from that have ne: "obstacles s \<noteq> []" by auto
    from gap_sorted_le_last [OF assms(2) that] have "x \<le> ox (last (obstacles s))"
      using ne by (simp add: last_map)
    moreover have "0 \<le> rnd 0 * 500" using assms(1) by simp
    ultimately show ?thesis using gap ne by simp
  qed
  with assms(2) show ?thesis
    by (simp add: new sorted_wrt_append)
qed

lemma spawnObstacle_width:
  assumes "list_all (\<lambda>obs. ow obs = 60) (obstacles s)"
  shows "list_all (\<lambda>obs. ow obs = 60) (obstacles (fst (spawnObstacle rnd h s)))"
  using assms by (simp add: spawnObstacle_def Let_def split_beta)

lemma removeOldObstacle_gap:
  assumes "sorted_wrt (\<lambda>a b. a + 600 < b) (map ox (obstacles s))"
  shows "sorted_wrt (\<lambda>a b. a + 600 < b) (map ox (obstacles (removeOldObstacle s)))"
  using assms by (cases "obstacles s") (simp_all add: removeOldObstacle_def)

lemma removeOldObstacle_width:
  assumes "list_all (\<lambda>obs. ow obs = 60) (obstacles s)"
  shows "list_all (\<lambda>obs. ow obs = 60) (obstacles (removeOldObstacle s))"
  using assms by (cases "obstacles s") (simp_all add: removeOldObstacle_def)

lemma beforeCollision_gap:
  assumes "0 \<le> rnd 0" and "sorted_wrt (\<lambda>a b. a + 600 < b) (map ox (obstacles (stateRef c)))"
  shows "sorted_wrt (\<lambda>a b. a + 600 < b) (map ox (obstacles (fst (beforeCollision rnd c))))"
  unfolding beforeCollision_obstacles
  by (intro removeOldObstacle_gap spawnObstacle_gap assms(1)) (simp add: phase_proj assms(2))

lemma beforeCollision_width:
  assumes "list_all (\<lambda>obs. ow obs = 60) (obstacles (stateRef c))"
  shows "list_all (\<lambda>obs. ow obs = 60) (obstacles (fst (beforeCollision rnd c)))"
  unfolding beforeCollision_obstacles
  by (intro removeOldObstacle_width spawnObstacle_width) (simp add: phase_proj assms)

lemma marked_width:
  "list_all (\<lambda>obs. ow obs = 60) (map (\<lambda>obs. if Q obs then obs\<lparr>collided := True\<rparr> else obs) xs) =
     list_all (\<lambda>obs. ow obs = 60) xs"
  by (induction xs) simp_all

lemma afterCollision_width:
  "list_all (\<lambda>obs. ow obs = 60) (obstacles (stateRef (fst (afterCollision rnd c)))) =
     list_all (\<lambda>obs. ow obs = 60) (obstacles (fst (beforeCollision rnd c)))"
  by (simp add: afterCollision_def collisionDetection_def split_beta collisionLoop_obstacles
      marked_width)

lemma updateScore_floor:
  assumes "renderedScore (stateRef c) = \<lfloor>score (stateRef c)\<rfloor>"
  shows "renderedScore (stateRef (updateScore c)) = \<lfloor>score (stateRef c) + 1 / 10\<rfloor>"
    and "score_ui c = \<lfloor>score (stateRef c)\<rfloor> \<Longrightarrow>
           score_ui (updateScore c) = \<lfloor>score (stateRef c) + 1 / 10\<rfloor>"
proof -
  have mono: "\<lfloor>score (stateRef c)\<rfloor> \<le> \<lfloor>score (stateRef c) + 1 / 10\<rfloor>"
    by (intro floor_mono) simp
  show "renderedScore (stateRef (updateScore c)) = \<lfloor>score (stateRef c) + 1 / 10\<rfloor>"
    using assms mono by (simp add: updateScore_def Let_def)
  show "score_ui (updateScore c) = \<lfloor>score (stateRef c) + 1 / 10\<rfloor>"
    if "score_ui c = \<lfloor>score (stateRef c)\<rfloor>"
    using assms mono that by (simp add: updateScore_def Let_def)
qed

lemma loop_score:
  assumes "isRunning (stateRef c)"
  shows "score (stateRef (loop rnd c)) = score (stateRef c) + 1 / 10"
    and "renderedScore (stateRef c) = \<lfloor>score (stateRef c)\<rfloor> \<Longrightarrow>
           renderedScore (stateRef (loop rnd c)) = \<lfloor>score (stateRef (loop rnd c))\<rfloor>"
    and "renderedScore (stateRef c) = \<lfloor>score (stateRef c)\<rfloor> \<Longrightarrow>
         score_ui c = \<lfloor>score (stateRef c)\<rfloor> \<Longrightarrow>
           score_ui (loop rnd c) = \<lfloor>score (stateRef (loop rnd c))\<rfloor>"
proof -
  let ?c2 = "enemyCatchCheck rnd (snd (afterCollision rnd c)) (fst (afterCollision rnd c))"
  let ?c2' = "?c2\<lparr>stateRef := updateParticles (stateRef ?c2)\<rparr>"
  have loop: "loop rnd c = (updateScore ?c2')\<lparr>stateRef := nextFrame (stateRef (updateScore ?c2'))\<rparr>"
    using assms by (simp add: loop_running Let_def)
  have s: "score (stateRef ?c2') = score (stateRef c)"
    and r: "renderedScore (stateRef ?c2') = renderedScore (stateRef c)"
    and u: "score_ui ?c2' = score_ui c"
    by (simp_all add: phase_proj afterCollision_proj)
  show sc: "score (stateRef (loop rnd c)) = score (stateRef c) + 1 / 10"
    by (simp add: loop phase_proj afterCollision_proj)
  show "renderedScore (stateRef (loop rnd c)) = \<lfloor>score (stateRef (loop rnd c))\<rfloor>"
    if "renderedScore (stateRef c) = \<lfloor>score (stateRef c)\<rfloor>"
    using updateScore_floor(1) [of ?c2'] that unfolding sc
    by (simp add: loop phase_proj afterCollision_proj s r)
  show "score_ui (loop rnd c) = \<lfloor>score (stateRef (loop rnd c))\<rfloor>"
    if "renderedScore (stateRef c) = \<lfloor>score (stateRef c)\<rfloor>"
      and "score_ui c = \<lfloor>score (stateRef c)\<rfloor>"
    using updateScore_floor(2) [of ?c2'] that unfolding sc
    by (simp add: loop phase_proj afterCollision_proj s r u)
qed

lemma loop_particles:
  assumes "isRunning (stateRef c)"
  shows "particles (stateRef (loop rnd c)) =
     filter (\<lambda>p. \<not> life p \<le> 0) (map moveParticle (particles (stateRef
       (enemyCatchCheck rnd (snd (afterCollision rnd c)) (fst (afterCollision rnd c))))))"
  using assms by (simp add: loop_running Let_def phase_proj) (simp add: updateParticles_def)

lemma loop_still_running:
  assumes "isRunning (stateRef c)" and "isRunning (stateRef (loop rnd c))"
  shows "particles (stateRef (loop rnd c)) =
           filter (\<lambda>p. \<not> life p \<le> 0) (map moveParticle (particles (stateRef c)))"
proof (cases "newHits (player (fst (beforeCollision rnd c))) (obstacles (fst (beforeCollision rnd c))) = []")
  case True
  from assms True have far: "\<not> distance (enemy (enemyDrift (stateRef c))) \<le> ENEMY_CATCH_DISTANCE"
    by (simp add: loop_miss)
  show ?thesis
    using assms(1) True far
    by (simp add: loop_particles afterCollision_miss enemyCatchCheck_def beforeCollision_proj)
next
  case False
  with assms(1) have "ended (loop rnd c)" by (rule loop_hit)
  with assms(2) show ?thesis by (simp add: ended_def)
qed

lemma loop_sessionInv:
  assumes "0 \<le> rnd 0" and "sessionInv c"
  shows "sessionInv (loop rnd c)"
proof (cases "isRunning (stateRef c)")
  case False
  with assms(2) show ?thesis by (simp add: loop_def)
next
  case True
  from assms(2) have rp: "isRunning (stateRef c) \<longleftrightarrow> gameState c = PLAYING"
    and clean: "particles (stateRef c) = []" "\<not> pointsAddedRef c"
    and gap: "sorted_wrt (\<lambda>a b. a + 600 < b) (map ox (obstacles (stateRef c)))"
    and width: "list_all (\<lambda>obs. ow obs = 60) (obstacles (stateRef c))"
    and pw: "pw (player (stateRef c)) = 60"
    and sc: "0 \<le> score (stateRef c)" "renderedScore (stateRef c) = \<lfloor>score (stateRef c)\<rfloor>"
      "score_ui c = \<lfloor>score (stateRef c)\<rfloor>"
    using True by (simp_all add: sessionInv_def Let_def)
  have "isRunning (stateRef (loop rnd c)) \<longleftrightarrow> gameState (loop rnd c) = PLAYING"
    using rp by (rule loop_running_iff_playing)
  moreover have "isRunning (stateRef (loop rnd c)) \<longrightarrow>
      particles (stateRef (loop rnd c)) = [] \<and> \<not> pointsAddedRef (loop rnd c)"
    using True clean by (simp add: loop_still_running loop_proj)
  moreover have "sorted_wrt (\<lambda>a b. a + 600 < b) (map ox (obstacles (stateRef (loop rnd c))))"
    using True beforeCollision_gap [of rnd c, OF assms(1) gap]
    by (simp add: loop_tail afterCollision_obstacles)
  moreover have "list_all (\<lambda>obs. ow obs = 60) (obstacles (stateRef (loop rnd c)))"
    using True beforeCollision_width [OF width]
    by (simp add: loop_tail afterCollision_width)
  moreover have "pw (player (stateRef (loop rnd c))) = 60"
    using True pw by (simp add: loop_player phase_proj)
  moreover have "0 \<le> score (stateRef (loop rnd c))"
    using True sc(1) by (simp add: loop_score)
  moreover have "renderedScore (stateRef (loop rnd c)) = \<lfloor>score (stateRef (loop rnd c))\<rfloor>"
    using True sc(2) by (rule loop_score)
  moreover have "score_ui (loop rnd c) = \<lfloor>score (stateRef (loop rnd c))\<rfloor>"
    using True sc(2,3) by (rule loop_score)
  ultimately show ?thesis
    by (simp add: sessionInv_def Let_def)
qed

lemma reachable_sessionInv: "reachable c \<Longrightarrow> sessionInv c"
proof (induction rule: reachable.induct)
  case reachable_init
  show ?case
    by (simp add: sessionInv_def initialComponent_def initialState_def PLAYER_SIZE_def)
next
  case (reachable_step c e)
  show ?case
  proof (cases e)
    case (Tick rnd)
    with reachable_step show ?thesis
      by (simp add: loop_sessionInv validRandom_def)
  next
    case AnimationStart
    with reachable_step.IH show ?thesis
      by (auto simp add: sessionInv_def onAnimationStart_def Let_def)
  qed (use reachable_step.IH in \<open>simp_all add: sessionInv_def resize_def resetGame_def
        handleKeyDown_def withdraw_def loadBalance_def Let_def PLAYER_SIZE_def
        split: option.splits\<close>)
qed

subsection \<open>The tick that hits a trap\<close>

lemma at_most_one_hit:
  assumes "sorted_wrt (\<lambda>a b. a + 600 < b) (map ox obs)"
    and "list_all (\<lambda>obs. ow obs = 60) obs" and "pw p = 60"
  shows "length (newHits p obs) \<le> 1"
  using assms(1,2)
proof (induction obs)
  case Nil
  show ?case by (simp add: newHits_def)
next
  case (Cons a rest)
  show ?case
  proof (cases "hits p a")
    case False
    with Cons show ?thesis by (simp add: newHits_def)
  next
    case True
    have "\<not> hits p b" if "b \<in> set rest" for b
    proof
      assume "hits p b"
      from that Cons.prems have "ox a + 600 < ox b" by auto
      moreover from True Cons.prems have "worldX p < ox a + 50" by (simp add: hits_def)
      moreover from \<open>hits p b\<close> assms(3) have "worldX p + 60 > ox b + 10" by (simp add: hits_def)
      ultimately show False by simp
    qed
    then have "newHits p rest = []"
      by (simp add: newHits_def filter_empty_conv)
    then show ?thesis by (simp add: newHits_def)
  qed
qed

lemma collisionLoop_fresh:
  assumes "list_all (freshParticle (worldX (player (stateRef c)))
             (py (player (stateRef c)) + PLAYER_SIZE / 2)) (particles (stateRef c))"
  shows "list_all (freshParticle (worldX (player (stateRef c)))
             (py (player (stateRef c)) + PLAYER_SIZE / 2))
           (particles (stateRef (snd (snd (collisionLoop rnd obs k c)))))"
  using assms
proof (induction obs arbitrary: k c)
  case Nil
  then show ?case by simp
next
  case (Cons a rest)
  let ?c' = "endRun rnd k (c\<lparr>stateRef := (stateRef c)\<lparr>enemy := (enemy (stateRef c))\<lparr>distance := 0\<rparr>\<rparr>\<rparr>)"
  have p': "player (stateRef ?c') = player (stateRef c)"
    by (simp add: endRun_proj)
  have "list_all (freshParticle (worldX (player (stateRef ?c')))
             (py (player (stateRef ?c')) + PLAYER_SIZE / 2)) (particles (stateRef ?c'))"
    using Cons.prems unfolding p'
    by (auto simp add: endRun_proj list_all_iff freshParticle_def newParticle_def)
  from Cons.IH [OF this] Cons.IH [OF Cons.prems] show ?case
    unfolding p' by (simp add: split_beta Let_def)
qed

lemma moved_fresh:
  assumes "list_all (freshParticle x y) ps"
  shows "filter (\<lambda>p. \<not> life p \<le> 0) (map moveParticle ps) = map moveParticle ps"
    and "\<forall>p \<in> set (map moveParticle ps).
           qx p - qvx p = x \<and> qy p - qvy p = y \<and> life p = 95 / 100"
proof -
  from assms have fresh: "freshParticle x y p" if "p \<in> set ps" for p
    using that by (simp add: list_all_iff)
  show "\<forall>p \<in> set (map moveParticle ps).
           qx p - qvx p = x \<and> qy p - qvy p = y \<and> life p = 95 / 100"
    using fresh by (auto simp add: freshParticle_def moveParticle_def)
  then have "\<forall>p \<in> set (map moveParticle ps). \<not> life p \<le> 0"
    by auto
  then show "filter (\<lambda>p. \<not> life p \<le> 0) (map moveParticle ps) = map moveParticle ps"
    by (rule filter_True)
qed

lemma plus_balance_zero: "plus_balance b 0 = b"
  by (cases b) simp_all

lemma funpow_fixed: "f x = x \<Longrightarrow> (f ^^ n) x = x"
  by (induction n) simp_all

lemma settle_once:
  assumes "gameState c = GAME_OVER" and "\<not> pointsAddedRef c" and "0 \<le> score_ui c"
  shows "balance ((onAnimationStart ^^ Suc n) c) = plus_balance (balance c) (score_ui c)"
proof -
  let ?d = "onAnimationStart c"
  have d: "gameState ?d = GAME_OVER" "pointsAddedRef ?d"
    "balance ?d = plus_balance (balance c) (score_ui c)"
    using assms by (auto simp add: onAnimationStart_def Let_def plus_balance_zero)
  then have "onAnimationStart ?d = ?d"
    by (simp add: onAnimationStart_def [of ?d])
  then have "(onAnimationStart ^^ n) ?d = ?d"
    by (rule funpow_fixed)
  then show ?thesis
    by (simp add: funpow_swap1 d)
qed

text \<open>The component \<open>beforeTrap\<close> is reached by playing: 111 ticks after a reset.\<close>

lemma quietRun_start:
  "loop (\<lambda>_. 1 / 100) (loop (\<lambda>_. 1 / 2) (resetGame (resize 800 initialComponent))) = quietRun 2"
  by (simp add: tick_defs resetGame_def resize_def initialComponent_def initialState_def
      constants quietRun_def)

lemma floor_tenth: "\<lfloor>real n / 10\<rfloor> = int (n div 10)"
  using floor_divide_of_nat_eq [of n 10, where ?'a = real] by simp

lemma quietRun_before:
  assumes "2 \<le> n" and "n \<le> 110"
  shows "fst (beforeCollision (\<lambda>_. 1 / 2) (quietRun n)) =
           (stateRef (quietRun (Suc n)))\<lparr>score := real n / 10, renderedScore := int (n div 10),
              frameCount := n\<rparr>"
proof -
  let ?s = "stateRef (quietRun n)"
  have frame: "n mod 600 \<noteq> 0"
    using assms by simp
  have s1: "difficultyScaling ?s = ?s"
    using frame by (simp add: difficultyScaling_def quietRun_def)
  have s2: "movePlayer ?s = ?s\<lparr>player := (player ?s)\<lparr>worldX := 21 / 2 * real (Suc n)\<rparr>\<rparr>"
    by (simp add: movePlayer_def quietRun_def ring_distribs)
  have s3: "playerPhysics 800 (movePlayer ?s) = movePlayer ?s"
    unfolding s2 by (simp add: playerPhysics_def Let_def quietRun_def constants)
  have s4: "enemyDrift (movePlayer ?s) =
              (movePlayer ?s)\<lparr>enemy := \<lparr>distance = min 350 (300 + real (Suc n) / 2)\<rparr>\<rparr>"
    unfolding s2 by (simp add: enemyDrift_def quietRun_def constants min_def add_divide_distrib)
  have s5: "fst (spawnObstacle (\<lambda>_. 1 / 2) 800 (enemyDrift (movePlayer ?s))) = enemyDrift (movePlayer ?s)"
    by (simp add: spawnObstacle_def Let_def split_beta)
  have s6: "removeOldObstacle (enemyDrift (movePlayer ?s)) = enemyDrift (movePlayer ?s)"
    by (simp add: removeOldObstacle_def phase_proj quietRun_def)
  have "fst (beforeCollision (\<lambda>_. 1 / 2) (quietRun n)) = enemyDrift (movePlayer ?s)"
    using s1 s3 s5 s6 by (simp add: beforeCollision_def split_beta quietRun_def)
  also have "\<dots> = (stateRef (quietRun (Suc n)))\<lparr>score := real n / 10,
                       renderedScore := int (n div 10), frameCount := n\<rparr>"
    unfolding s2
    by (simp add: enemyDrift_def quietRun_def constants min_def add_divide_distrib)
  finally show ?thesis .
qed

lemma quietRun_step:
  assumes "2 \<le> n" and "n \<le> 110"
  shows "loop (\<lambda>_. 1 / 2) (quietRun n) = quietRun (Suc n)"
proof -
  let ?r = "\<lambda>_::nat. 1 / 2 :: real"
  let ?b = "fst (beforeCollision ?r (quietRun n))"
  note b = quietRun_before [OF assms]
  have run: "isRunning (stateRef (quietRun n))"
    by (simp add: quietRun_def)
  have clear: "\<not> (21 / 2 * real (Suc n) + 60 > 1221 + 10)"
    using assms by simp
  have miss: "newHits (player ?b) (obstacles ?b) = []"
    unfolding b using clear by (simp add: newHits_def hits_def quietRun_def)
  have c1: "fst (afterCollision ?r (quietRun n)) = (quietRun n)\<lparr>stateRef := ?b\<rparr>"
    using miss by (rule afterCollision_miss)
  have "0 \<le> real (Suc n)"
    by (rule of_nat_0_le_iff)
  then have "30 < 300 + real (Suc n) / 2"
    by linarith
  then have far: "\<not> min 350 (300 + real (Suc n) / 2) \<le> 30"
    by (simp add: min_def del: of_nat_Suc)
  have c2: "enemyCatchCheck ?r (snd (afterCollision ?r (quietRun n)))
              (fst (afterCollision ?r (quietRun n))) = (quietRun n)\<lparr>stateRef := ?b\<rparr>"
    unfolding c1 b using far by (simp add: enemyCatchCheck_def quietRun_def constants)
  have fl: "\<lfloor>real n / 10 + 1 / 10\<rfloor> = int (Suc n div 10)"
    "\<lfloor>(1 + real n) / 10\<rfloor> = int (Suc n div 10)"
    using floor_tenth [of "Suc n"] by (simp_all add: add_divide_distrib add.commute)
  have mono: "n div 10 \<le> Suc n div 10"
    by (simp add: div_le_mono)
  have same: "n div 10 = Suc n div 10" if "\<not> int (n div 10) < int (Suc n div 10)"
    using that mono by simp
  have sc: "real n / 10 + 1 / 10 = real (Suc n) / 10"
    by (simp add: add_divide_distrib)
  have "loop ?r (quietRun n) =
      (let c3 = updateScore ((quietRun n)\<lparr>stateRef := updateParticles ?b\<rparr>)
       in c3\<lparr>stateRef := nextFrame (stateRef c3)\<rparr>)"
    using run by (simp add: loop_running Let_def c2)
  also have "\<dots> = quietRun (Suc n)"
    unfolding b using same
    by (simp add: Let_def updateParticles_def updateScore_def nextFrame_def quietRun_def fl)
  finally show ?thesis .
qed

lemma reachable_quietRun:
  assumes "2 \<le> n" and "n \<le> 111"
  shows "reachable (quietRun n)"
  using assms
proof (induction n rule: nat_induct_at_least)
  case base
  have "reachable (dispatch (Tick (\<lambda>_. 1 / 100)) (dispatch (Tick (\<lambda>_. 1 / 2))
          (resetGame (resize 800 initialComponent))))"
    using reachable_reset by (intro reachable_step) (simp_all add: validRandom_def)
  then show ?case
    by (simp add: quietRun_start)
next
  case (Suc n)
  then have "reachable (dispatch (Tick (\<lambda>_. 1 / 2)) (quietRun n))"
    by (intro reachable_step) (simp_all add: validRandom_def)
  with Suc show ?case
    by (simp add: quietRun_step)
qed

lemma beforeTrap_quietRun: "beforeTrap = quietRun 111"
  by (simp add: beforeTrap_def quietRun_def)

lemma reachable_beforeTrap: "reachable beforeTrap"
  unfolding beforeTrap_quietRun by (rule reachable_quietRun) simp_all

text \<open>
  Claim C4 against the code. Take a running tick of a component that satisfies the
  session invariant, in which the player overlaps an untriggered trap. Exactly one trap
  is hit; its \<open>collided\<close> flag becomes true; \<open>isRunning\<close> becomes false and the
  session is \<open>GAME_OVER\<close>. The tick leaves 20 particles, where the claim has exactly 10:
  the collision branch makes ten, and the catch check of the same tick, finding the
  distance at 0, makes ten more. All of them were created at the player's position,
  half a hitbox below its top. However often the game-over animation starts afterwards,
  the balance is credited once, with the floor of the final score.
\<close>

theorem trap_hit_tick:
  assumes "sessionInv c" and "isRunning (stateRef c)" and "validRandom rnd"
    and "newHits (player (fst (beforeCollision rnd c))) (obstacles (fst (beforeCollision rnd c))) \<noteq> []"
  shows "(\<exists>obs. newHits (player (fst (beforeCollision rnd c)))
                 (obstacles (fst (beforeCollision rnd c))) = [obs])
    \<and> obstacles (stateRef (loop rnd c)) =
        map (\<lambda>obs. if \<not> collided obs \<and> hits (player (fst (beforeCollision rnd c))) obs
                    then obs\<lparr>collided := True\<rparr> else obs)
            (obstacles (fst (beforeCollision rnd c)))
    \<and> \<not> isRunning (stateRef (loop rnd c))
    \<and> gameState (loop rnd c) = GAME_OVER
    \<and> length (particles (stateRef (loop rnd c))) = 20
    \<and> (\<forall>p \<in> set (particles (stateRef (loop rnd c))).
          qx p - qvx p = worldX (player (stateRef (loop rnd c)))
          \<and> qy p - qvy p = py (player (stateRef (loop rnd c))) + PLAYER_SIZE / 2
          \<and> life p = 95 / 100)
    \<and> balance ((onAnimationStart ^^ Suc n) (loop rnd c)) =
        plus_balance (balance c) \<lfloor>score (stateRef (loop rnd c))\<rfloor>"
proof -
  let ?b = "fst (beforeCollision rnd c)"
  let ?k = "snd (beforeCollision rnd c)"
  let ?cb = "c\<lparr>stateRef := ?b\<rparr>"
  let ?l = "collisionLoop rnd (obstacles ?b) ?k ?cb"
  let ?c1 = "fst (afterCollision rnd c)"
  let ?c2 = "enemyCatchCheck rnd (snd (afterCollision rnd c)) ?c1"
  let ?x = "worldX (player ?b)" and ?y = "py (player ?b) + PLAYER_SIZE / 2"
  from assms(3) have r0: "0 \<le> rnd 0" by (simp add: validRandom_def)
  from assms(1,2) have inv:
    "particles (stateRef c) = []" "\<not> pointsAddedRef c"
    "sorted_wrt (\<lambda>a b. a + 600 < b) (map ox (obstacles (stateRef c)))"
    "list_all (\<lambda>obs. ow obs = 60) (obstacles (stateRef c))"
    "pw (player (stateRef c)) = 60"
    by (simp_all add: sessionInv_def Let_def)
  have "length (newHits (player ?b) (obstacles ?b)) \<le> 1"
    using beforeCollision_gap [of rnd c, OF r0 inv(3)] beforeCollision_width [OF inv(4)] inv(5)
    by (intro at_most_one_hit) (simp_all add: beforeCollision_proj phase_proj)
  with assms(4) have one: "length (newHits (player ?b) (obstacles ?b)) = 1"
    by (cases "newHits (player ?b) (obstacles ?b)") simp_all
  then have single: "\<exists>obs. newHits (player ?b) (obstacles ?b) = [obs]"
    by (cases "newHits (player ?b) (obstacles ?b)") simp_all
  have c1: "stateRef ?c1 = (stateRef (snd (snd ?l)))\<lparr>obstacles := fst ?l\<rparr>"
    by (simp add: afterCollision_def collisionDetection_def split_beta)
  have marked: "obstacles (stateRef (loop rnd c)) =
        map (\<lambda>obs. if \<not> collided obs \<and> hits (player ?b) obs
                    then obs\<lparr>collided := True\<rparr> else obs) (obstacles ?b)"
    using assms(2) by (simp add: loop_tail c1 collisionLoop_obstacles)
  have over: "ended (loop rnd c)"
    using assms(2,4) by (rule loop_hit)
  have caught: "ended ?c1"
    using assms(4) by (rule afterCollision_hit)
  have pl: "player (stateRef (loop rnd c)) = player ?b"
    using assms(2) by (simp add: loop_player beforeCollision_proj)
  have pl1: "player (stateRef ?c1) = player ?b"
    by (simp add: afterCollision_proj)
  have len1: "length (particles (stateRef ?c1)) = 10"
    using one inv(1) by (simp add: c1 collisionLoop_particles beforeCollision_proj)
  have "list_all (freshParticle (worldX (player (stateRef ?cb)))
          (py (player (stateRef ?cb)) + PLAYER_SIZE / 2)) (particles (stateRef ?cb))"
    using inv(1) by (simp add: beforeCollision_proj)
  from collisionLoop_fresh [OF this]
  have fresh1: "list_all (freshParticle ?x ?y) (particles (stateRef ?c1))"
    by (simp add: c1)
  have c2: "?c2 = endRun rnd (snd (afterCollision rnd c)) ?c1"
    using caught by (simp add: enemyCatchCheck_def ended_def ENEMY_CATCH_DISTANCE_def)
  have len2: "length (particles (stateRef ?c2)) = 20"
    using len1 by (simp add: c2 endRun_proj)
  have fresh2: "list_all (freshParticle ?x ?y) (particles (stateRef ?c2))"
    using fresh1
    by (auto simp add: c2 endRun_proj pl1 list_all_iff freshParticle_def newParticle_def)
  have "particles (stateRef (loop rnd c)) =
          filter (\<lambda>p. \<not> life p \<le> 0) (map moveParticle (particles (stateRef ?c2)))"
    using assms(2) by (rule loop_particles)
  also have "\<dots> = map moveParticle (particles (stateRef ?c2))"
    using fresh2 by (rule moved_fresh(1))
  finally have parts:
    "particles (stateRef (loop rnd c)) = map moveParticle (particles (stateRef ?c2))" .
  have len: "length (particles (stateRef (loop rnd c))) = 20"
    by (simp add: parts len2)
  have born: "\<forall>p \<in> set (particles (stateRef (loop rnd c))).
          qx p - qvx p = worldX (player (stateRef (loop rnd c)))
          \<and> qy p - qvy p = py (player (stateRef (loop rnd c))) + PLAYER_SIZE / 2
          \<and> life p = 95 / 100"
    using moved_fresh(2) [OF fresh2] unfolding parts pl by simp
  have inv': "sessionInv (loop rnd c)"
    using r0 assms(1) by (rule loop_sessionInv)
  then have ui: "score_ui (loop rnd c) = \<lfloor>score (stateRef (loop rnd c))\<rfloor>"
    and nonneg: "0 \<le> score (stateRef (loop rnd c))"
    by (simp_all add: sessionInv_def Let_def)
  have "balance ((onAnimationStart ^^ Suc n) (loop rnd c)) =
          plus_balance (balance (loop rnd c)) (score_ui (loop rnd c))"
    using over inv(2) nonneg
    by (intro settle_once) (simp_all add: ended_def loop_proj ui)
  then have settled: "balance ((onAnimationStart ^^ Suc n) (loop rnd c)) =
        plus_balance (balance c) \<lfloor>score (stateRef (loop rnd c))\<rfloor>"
    by (simp add: loop_proj ui)
  from over have stopped: "\<not> isRunning (stateRef (loop rnd c))"
    and state: "gameState (loop rnd c) = GAME_OVER"
    by (simp_all add: ended_def)
  from single marked stopped state len born settled show ?thesis
    by (intro conjI)
qed

lemma beforeTrap_sessionInv: "sessionInv beforeTrap"
  by (simp add: sessionInv_def beforeTrap_def)

lemma beforeTrap_hit:
  "newHits (player (fst (beforeCollision (\<lambda>_. 1 / 2) beforeTrap)))
     (obstacles (fst (beforeCollision (\<lambda>_. 1 / 2) beforeTrap)))
   = [\<lparr>ox = 1221, oy = 635, ow = 60, oh = 45, collided = False\<rparr>]"
  by (simp add: newHits_def tick_defs beforeTrap_def constants)

theorem trap_hit_tick_witness:
  "reachable beforeTrap
   \<and> sessionInv beforeTrap \<and> isRunning (stateRef beforeTrap) \<and> validRandom (\<lambda>_. 1 / 2)
   \<and> map collided (obstacles (stateRef beforeTrap)) = [False]
   \<and> map collided (obstacles (stateRef (loop (\<lambda>_. 1 / 2) beforeTrap))) = [True]
   \<and> \<not> isRunning (stateRef (loop (\<lambda>_. 1 / 2) beforeTrap))
   \<and> gameState (loop (\<lambda>_. 1 / 2) beforeTrap) = GAME_OVER
   \<and> length (particles (stateRef (loop (\<lambda>_. 1 / 2) beforeTrap))) = 20
   \<and> length (particles (stateRef (loop (\<lambda>_. 1 / 2) beforeTrap))) \<noteq> 10
   \<and> balance ((onAnimationStart ^^ 3) (loop (\<lambda>_. 1 / 2) beforeTrap)) = Num 11"
proof -
  let ?r = "\<lambda>_::nat. 1 / 2 :: real"
  have run: "isRunning (stateRef beforeTrap)"
    by (simp add: beforeTrap_def)
  have valid: "validRandom ?r"
    by (simp add: validRandom_def)
  have hit: "newHits (player (fst (beforeCollision ?r beforeTrap)))
               (obstacles (fst (beforeCollision ?r beforeTrap))) \<noteq> []"
    by (simp add: beforeTrap_hit)
  have before: "map collided (obstacles (stateRef beforeTrap)) = [False]"
    by (simp add: beforeTrap_def)
  have obs: "obstacles (fst (beforeCollision ?r beforeTrap))
               = [\<lparr>ox = 1221, oy = 635, ow = 60, oh = 45, collided = False\<rparr>]"
    by (simp add: tick_defs beforeTrap_def constants)
  have overlaps: "hits (player (fst (beforeCollision ?r beforeTrap)))
                    \<lparr>ox = 1221, oy = 635, ow = 60, oh = 45, collided = False\<rparr>"
    by (simp add: tick_defs beforeTrap_def constants)
  have sc: "\<lfloor>score (stateRef (loop ?r beforeTrap))\<rfloor> = 11" "balance beforeTrap = Num 0"
    by (simp_all add: loop_score run) (simp_all add: beforeTrap_def)
  from trap_hit_tick [OF beforeTrap_sessionInv run valid hit, of 2]
  have "obstacles (stateRef (loop ?r beforeTrap))
          = [\<lparr>ox = 1221, oy = 635, ow = 60, oh = 45, collided = True\<rparr>]"
    and "\<not> isRunning (stateRef (loop ?r beforeTrap))"
    and "gameState (loop ?r beforeTrap) = GAME_OVER"
    and "length (particles (stateRef (loop ?r beforeTrap))) = 20"
    and "balance ((onAnimationStart ^^ 3) (loop ?r beforeTrap)) = Num 11"
    by (simp_all add: obs sc overlaps numeral_3_eq_3)
  with reachable_beforeTrap beforeTrap_sessionInv run valid before show ?thesis
    by simp
qed

subsection \<open>A run that fills the obstacle list\<close>

lemma no_hits_above:
  assumes "list_all (\<lambda>obs. oy obs = 735 \<and> oh obs = 45) obs" and "py p + ph p \<le> 745"
  shows "newHits p obs = []"
  using assms by (induction obs) (simp_all add: newHits_def hits_def)

lemma tick_clear:
  assumes "isRunning (stateRef c)"
    and "newHits (player (fst (beforeCollision rnd c))) (obstacles (fst (beforeCollision rnd c))) = []"
    and "300 \<le> distance (enemy (stateRef c))"
  shows "isRunning (stateRef (loop rnd c))"
    and "300 \<le> distance (enemy (stateRef (loop rnd c)))"
    and "obstacles (stateRef (loop rnd c)) = obstacles (fst (beforeCollision rnd c))"
proof -
  from assms(3) enemyDrift_distance [of "stateRef c"]
  have far: "300 \<le> distance (enemy (enemyDrift (stateRef c)))" by simp
  show "isRunning (stateRef (loop rnd c))"
    using assms(1,2) far by (simp add: loop_miss ENEMY_CATCH_DISTANCE_def)
  show "300 \<le> distance (enemy (stateRef (loop rnd c)))"
    using assms(1,2) far by (simp add: loop_miss)
  show "obstacles (stateRef (loop rnd c)) = obstacles (fst (beforeCollision rnd c))"
    using assms(1,2) by (simp add: loop_tail afterCollision_miss)
qed

lemma spawnObstacle_none:
  assumes "\<not> rnd 0 < 2 / 100" and "\<not> rnd 1 < 2 / 100"
  shows "fst (spawnObstacle rnd h s) = s"
  using assms by (simp add: spawnObstacle_def Let_def split_beta)

lemma difficultyScaling_speed:
  "gameSpeed s \<le> gameSpeed (difficultyScaling s)"
  by (simp add: difficultyScaling_def)

lemma quietTick_rolling:
  assumes "rolling k j c" and "k \<le> 20"
  shows "cruise k (Suc j) (dispatch quietTick c)"
    and "obstacles (stateRef (dispatch quietTick c)) = obstacles (stateRef c)"
proof -
  let ?r = "\<lambda>_::nat. 1 / 2 :: real"
  let ?s = "stateRef c"
  let ?m = "movePlayer (difficultyScaling ?s)"
  let ?c' = "loop ?r c"
  let ?b = "fst (beforeCollision ?r c)"
  from assms(1) have h: "canvasHeight c = 800" and run: "isRunning ?s"
    and pose: "ph (player ?s) = 60" "620 \<le> py (player ?s)" "0 \<le> vy (player ?s)"
    and far: "300 \<le> distance (enemy ?s)" and fast: "21 / 2 \<le> gameSpeed ?s"
    and len: "length (obstacles ?s) = k"
    and low: "list_all (\<lambda>obs. oy obs = 735 \<and> oh obs = 45) (obstacles ?s)"
    and behind: "obstacles ?s \<noteq> [] \<longrightarrow>
                   ox (last (obstacles ?s)) + 21 / 2 * real j \<le> worldX (player ?s) + 1200"
    by (simp_all add: rolling_def Let_def)
  have "py (player ?m) + (vy (player ?m) + GRAVITY) + ph (player ?m) \<ge> 800 - PLAYER_GROUND_OFFSET"
    using pose by (simp add: phase_proj constants)
  from playerPhysics_cases(1) [OF this]
  have phys: "grounded (player (playerPhysics 800 ?m))" "vy (player (playerPhysics 800 ?m)) = 0"
    "py (player (playerPhysics 800 ?m)) = 620"
    using pose by (simp_all add: phase_proj constants)
  have pb: "player ?b = player (playerPhysics 800 ?m)"
    by (simp add: beforeCollision_proj h)
  have ob: "obstacles ?b = obstacles ?s"
    using len assms(2)
    by (simp add: beforeCollision_obstacles spawnObstacle_none removeOldObstacle_def phase_proj)
  have miss: "newHits (player ?b) (obstacles ?b) = []"
    unfolding ob pb using low by (rule no_hits_above) (simp add: phys phase_proj pose)
  note clear = tick_clear [OF run miss far]
  have pl: "player (stateRef ?c') = player (playerPhysics 800 ?m)"
    using run by (simp add: loop_player h)
  have speed: "gameSpeed (stateRef ?c') = gameSpeed (difficultyScaling ?s)"
    using run by (rule loop_gameSpeed)
  have x: "worldX (player (stateRef ?c')) = worldX (player ?s) + gameSpeed (difficultyScaling ?s)"
    by (simp add: pl phase_proj)
  have fast': "21 / 2 \<le> gameSpeed (difficultyScaling ?s)"
    using fast difficultyScaling_speed [of ?s] by simp
  have obs': "obstacles (stateRef ?c') = obstacles ?s"
    using clear(3) ob by simp
  have behind': "obstacles ?s \<noteq> [] \<longrightarrow>
      ox (last (obstacles ?s)) + 21 / 2 * real (Suc j) \<le> worldX (player (stateRef ?c')) + 1200"
    using behind fast' unfolding x by (auto simp add: ring_distribs)
  have pose': "ph (player (stateRef ?c')) = 60" "py (player (stateRef ?c')) = 620"
    "vy (player (stateRef ?c')) = 0"
    by (simp_all add: pl phys phase_proj pose)
  have "rolling k (Suc j) ?c'"
    using clear(1,2) len low behind' fast'
    by (simp add: rolling_def Let_def obs' pose' speed loop_proj h)
  then show "cruise k (Suc j) (dispatch quietTick c)"
    by (simp add: cruise_def quietTick_def pose')
  show "obstacles (stateRef (dispatch quietTick c)) = obstacles (stateRef c)"
    by (simp add: quietTick_def obs')
qed

lemma spawnObstacle_some:
  assumes "obstacles s = [] \<or> worldX (player s) + 1200 - ox (last (obstacles s)) > 600"
  shows "fst (spawnObstacle (\<lambda>_. 0) h s) =
           s\<lparr>obstacles := obstacles s @
               [\<lparr>ox = worldX (player s) + 1200, oy = (h - PLAYER_GROUND_OFFSET) - 45,
                 ow = 60, oh = 45, collided = False\<rparr>]\<rparr>"
  using assms by (auto simp add: spawnObstacle_def Let_def split_beta)

lemma resize_running:
  assumes "isRunning (stateRef c)"
  shows "stateRef (resize h c) = stateRef c" and "canvasHeight (resize h c) = h"
  using assms by (simp_all add: resize_def Let_def)

lemma spawnTick_cruise:
  assumes "cruise k j c" and "k \<le> 20" and "k = 0 \<or> 57 \<le> j"
  shows "rolling (if k = 20 then 20 else Suc k) 0
           (resize 800 (loop (\<lambda>_. 0) (resize 900 c)))"
    and "obstacles (stateRef (loop (\<lambda>_. 0) (resize 900 c))) =
           (if k = 20 then tl (obstacles (stateRef c)) else obstacles (stateRef c)) @
           [\<lparr>ox = worldX (player (stateRef (loop (\<lambda>_. 0) (resize 900 c)))) + 1200,
             oy = 735, ow = 60, oh = 45, collided = False\<rparr>]"
proof -
  let ?r = "\<lambda>_::nat. 0 :: real"
  let ?s = "stateRef c"
  let ?c0 = "resize 900 c"
  let ?m = "movePlayer (difficultyScaling ?s)"
  let ?s4 = "enemyDrift (playerPhysics 900 ?m)"
  let ?c1 = "loop ?r ?c0"
  let ?b = "fst (beforeCollision ?r ?c0)"
  let ?x = "worldX (player ?s) + gameSpeed (difficultyScaling ?s)"
  let ?new = "\<lparr>ox = ?x + 1200, oy = 735, ow = 60, oh = 45, collided = False\<rparr>"
  from assms(1) have run: "isRunning ?s"
    and pose: "ph (player ?s) = 60" "py (player ?s) = 620" "vy (player ?s) = 0"
    and far: "300 \<le> distance (enemy ?s)" and fast: "21 / 2 \<le> gameSpeed ?s"
    and len: "length (obstacles ?s) = k"
    and low: "list_all (\<lambda>obs. oy obs = 735 \<and> oh obs = 45) (obstacles ?s)"
    and behind: "obstacles ?s \<noteq> [] \<longrightarrow>
                   ox (last (obstacles ?s)) + 21 / 2 * real j \<le> worldX (player ?s) + 1200"
    by (simp_all add: cruise_def rolling_def Let_def)
  note c0 = resize_running [OF run, of 900]
  have run0: "isRunning (stateRef ?c0)"
    using run by (simp add: c0)
  have "py (player ?m) + (vy (player ?m) + GRAVITY) + ph (player ?m) < 900 - PLAYER_GROUND_OFFSET"
    using pose by (simp add: phase_proj constants)
  from playerPhysics_cases(2) [OF this]
  have phys: "vy (player (playerPhysics 900 ?m)) = 6 / 5"
    "py (player (playerPhysics 900 ?m)) = 3106 / 5"
    using pose by (simp_all add: phase_proj constants)
  have fast': "21 / 2 \<le> gameSpeed (difficultyScaling ?s)"
    using fast difficultyScaling_speed [of ?s] by simp
  have s4: "obstacles ?s4 = obstacles ?s" "worldX (player ?s4) = ?x"
    by (simp_all add: phase_proj)
  have gap: "obstacles ?s4 = [] \<or> worldX (player ?s4) + 1200 - ox (last (obstacles ?s4)) > 600"
  proof (cases "obstacles ?s = []")
    case True
    then show ?thesis by (simp add: s4)
  next
    case False
    with len assms(3) have "57 \<le> j" by auto
    then have "57 \<le> real j" by simp
    with behind False fast' show ?thesis
      unfolding s4 by simp
  qed
  have spawned: "obstacles (fst (spawnObstacle ?r 900 ?s4)) = obstacles ?s @ [?new]"
    by (simp add: spawnObstacle_some [OF gap] s4 constants)
  have ob: "obstacles ?b = (if k = 20 then tl (obstacles ?s) else obstacles ?s) @ [?new]"
  proof (cases "k = 20")
    case True
    with len have "obstacles ?s \<noteq> []" by auto
    with True len show ?thesis
      by (simp add: beforeCollision_obstacles c0 spawned removeOldObstacle_def)
  next
    case False
    with assms(2) len show ?thesis
      by (simp add: beforeCollision_obstacles c0 spawned removeOldObstacle_def)
  qed
  have low': "list_all (\<lambda>obs. oy obs = 735 \<and> oh obs = 45) (obstacles ?b)"
    using low unfolding ob by (cases "obstacles ?s") simp_all
  have pb: "player ?b = player (playerPhysics 900 ?m)"
    by (simp add: beforeCollision_proj c0)
  have miss: "newHits (player ?b) (obstacles ?b) = []"
    using low' by (rule no_hits_above) (simp add: pb phys phase_proj pose)
  have far0: "300 \<le> distance (enemy (stateRef ?c0))"
    using far by (simp add: c0)
  note clear = tick_clear [OF run0 miss far0]
  have pl: "player (stateRef ?c1) = player (playerPhysics 900 ?m)"
    using run0 by (simp add: loop_player c0)
  have x: "worldX (player (stateRef ?c1)) = ?x"
    by (simp add: pl phase_proj)
  have speed: "gameSpeed (stateRef ?c1) = gameSpeed (difficultyScaling ?s)"
    using run0 by (simp add: loop_gameSpeed c0)
  show obs1: "obstacles (stateRef ?c1) =
           (if k = 20 then tl (obstacles ?s) else obstacles ?s) @
           [\<lparr>ox = worldX (player (stateRef ?c1)) + 1200,
             oy = 735, ow = 60, oh = 45, collided = False\<rparr>]"
    unfolding x using clear(3) ob by simp
  have len1: "length (obstacles (stateRef ?c1)) = (if k = 20 then 20 else Suc k)"
    using len by (simp add: obs1)
  have low1: "list_all (\<lambda>obs. oy obs = 735 \<and> oh obs = 45) (obstacles (stateRef ?c1))"
    using low' clear(3) by simp
  have last1: "ox (last (obstacles (stateRef ?c1))) = worldX (player (stateRef ?c1)) + 1200"
    by (subst obs1) simp
  have pose1: "ph (player (stateRef ?c1)) = 60" "620 \<le> py (player (stateRef ?c1))"
    "0 \<le> vy (player (stateRef ?c1))"
    by (simp_all add: pl phys phase_proj pose)
  note c2 = resize_running [OF clear(1), of 800]
  show "rolling (if k = 20 then 20 else Suc k) 0 (resize 800 ?c1)"
    using clear(1,2) len1 low1 last1 pose1 fast'
    by (simp add: rolling_def Let_def c2 speed)
qed

lemma quietTicks_rolling:
  assumes "rolling k j c" and "k \<le> 20"
  shows "cruise k (j + Suc n) (fold dispatch (replicate (Suc n) quietTick) c)
         \<and> obstacles (stateRef (fold dispatch (replicate (Suc n) quietTick) c))
             = obstacles (stateRef c)"
  using assms(1)
proof (induction n arbitrary: c j)
  case 0
  with quietTick_rolling [OF _ assms(2)] show ?case by simp
next
  case (Suc n)
  from quietTick_rolling [OF Suc.prems assms(2)]
  have step: "cruise k (Suc j) (dispatch quietTick c)"
    and same: "obstacles (stateRef (dispatch quietTick c)) = obstacles (stateRef c)"
    by simp_all
  from step have "rolling k (Suc j) (dispatch quietTick c)"
    by (simp add: cruise_def)
  from Suc.IH [OF this] same show ?case
    by simp
qed

lemma spawnBlock_cruise:
  assumes "cruise k j c" and "k < 20"
  shows "cruise (Suc k) 1 (fold dispatch spawnBlock c)"
proof -
  let ?c1 = "fold dispatch (replicate 57 quietTick) c"
  let ?c2 = "resize 800 (loop (\<lambda>_. 0) (resize 900 ?c1))"
  from assms have "rolling k j c" and k: "k \<le> 20"
    by (simp_all add: cruise_def)
  from quietTicks_rolling [OF this, of 56] have c1: "cruise k (j + 57) ?c1"
    by simp
  have "rolling (if k = 20 then 20 else Suc k) 0 ?c2"
    using c1 k by (rule spawnTick_cruise) simp
  with assms(2) have "rolling (Suc k) 0 ?c2" by simp
  moreover from assms(2) have "Suc k \<le> 20" by simp
  ultimately have "cruise (Suc k) (Suc 0) (dispatch quietTick ?c2)"
    by (rule quietTick_rolling)
  then show ?thesis
    by (simp add: spawnBlock_def spawnTick_def)
qed

lemma spawnBlocks_cruise:
  assumes "cruise k j c" and "k + n \<le> 20"
  shows "\<exists>j'. cruise (k + n) j' (fold dispatch (concat (replicate n spawnBlock)) c)"
  using assms
proof (induction n arbitrary: k j c)
  case 0
  then show ?case by auto
next
  case (Suc n)
  from Suc.prems have "cruise (Suc k) 1 (fold dispatch spawnBlock c)"
    by (intro spawnBlock_cruise) simp_all
  from Suc.IH [OF this] Suc.prems(2) show ?case
    by simp
qed

lemma start_cruise: "cruise 0 0 (fold dispatch [Resize 800, Reset, quietTick] initialComponent)"
  by (simp add: cruise_def rolling_def quietTick_def tick_defs resetGame_def resize_def
      initialComponent_def initialState_def constants)

lemma longRun_cruise:
  assumes "k \<le> 20"
  shows "\<exists>j. cruise k j (fold dispatch (longRun k) initialComponent)"
  using spawnBlocks_cruise [OF start_cruise, of k] assms
  by (simp add: longRun_def)

lemma validEvent_blocks:
  "validEvent quietTick" "validEvent spawnTick" "list_all validEvent spawnBlock"
  "list_all validEvent (longRun k)"
  by (simp_all add: quietTick_def spawnTick_def spawnBlock_def longRun_def validRandom_def
      list_all_iff)

lemma reachable_fold:
  "reachable c \<Longrightarrow> list_all validEvent es \<Longrightarrow> reachable (fold dispatch es c)"
  by (induction es arbitrary: c) (simp_all add: reachable_step)

lemma reachable_twentyTraps: "reachable twentyTraps"
  unfolding twentyTraps_def
  by (intro reachable_fold reachable_init validEvent_blocks)

lemma twentyTraps_cruise: "\<exists>j. cruise 20 j twentyTraps"
  unfolding twentyTraps_def by (rule longRun_cruise) simp

lemma twentyTraps_next:
  "length (obstacles (stateRef twentyTraps)) = 20"
  "reachable (resize 900 (fold dispatch (replicate 57 quietTick) twentyTraps))"
  "obstacles (stateRef (resize 900 (fold dispatch (replicate 57 quietTick) twentyTraps)))
     = obstacles (stateRef twentyTraps)"
  "obstacles (stateRef (loop (\<lambda>_. 0)
       (resize 900 (fold dispatch (replicate 57 quietTick) twentyTraps)))) =
     tl (obstacles (stateRef twentyTraps)) @
     [\<lparr>ox = worldX (player (stateRef (loop (\<lambda>_. 0)
               (resize 900 (fold dispatch (replicate 57 quietTick) twentyTraps))))) + 1200,
       oy = 735, ow = 60, oh = 45, collided = False\<rparr>]"
proof -
  let ?q = "fold dispatch (replicate 57 quietTick) twentyTraps"
  from twentyTraps_cruise obtain j where start: "cruise 20 j twentyTraps" ..
  then have roll: "rolling 20 j twentyTraps"
    by (simp add: cruise_def)
  then show "length (obstacles (stateRef twentyTraps)) = 20"
    by (simp add: rolling_def Let_def)
  from quietTicks_rolling [OF roll, of 56]
  have q: "cruise 20 (j + 57) ?q" and same: "obstacles (stateRef ?q) = obstacles (stateRef twentyTraps)"
    by simp_all
  from q have run: "isRunning (stateRef ?q)"
    by (simp add: cruise_def rolling_def Let_def)
  have "reachable (dispatch (Resize 900) ?q)"
    by (intro reachable_step reachable_fold reachable_twentyTraps)
       (simp_all add: validEvent_blocks list_all_iff)
  then show "reachable (resize 900 ?q)" by simp
  show "obstacles (stateRef (resize 900 ?q)) = obstacles (stateRef twentyTraps)"
    unfolding resize_running(1) [OF run] by (rule same)
  have "obstacles (stateRef (loop (\<lambda>_. 0) (resize 900 ?q))) =
     (if (20::nat) = 20 then tl (obstacles (stateRef ?q)) else obstacles (stateRef ?q)) @
     [\<lparr>ox = worldX (player (stateRef (loop (\<lambda>_. 0) (resize 900 ?q)))) + 1200,
       oy = 735, ow = 60, oh = 45, collided = False\<rparr>]"
    using q by (rule spawnTick_cruise(2)) simp_all
  then show "obstacles (stateRef (loop (\<lambda>_. 0) (resize 900 ?q))) =
     tl (obstacles (stateRef twentyTraps)) @
     [\<lparr>ox = worldX (player (stateRef (loop (\<lambda>_. 0) (resize 900 ?q)))) + 1200,
       oy = 735, ow = 60, oh = 45, collided = False\<rparr>]"
    unfolding same by (simp only: if_True refl)
qed

text \<open>A second trap, spawned 609 beyond the first, 60 ticks into a run.\<close>

lemma second_spawn:
  "map ox (obstacles (stateRef (quietRun 59))) = [1221]"
  "map ox (obstacles (stateRef (loop (\<lambda>_. 0) (quietRun 59)))) = [1221, 1830]"
  by (simp_all add: tick_defs quietRun_def constants)

subsection \<open>Sorted obstacles\<close>

text \<open>
  Claim C3. With every draw of \<^verbatim>\<open>Math.random()\<close> in \<open>[0, 1)\<close>, the obstacles are in
  strictly ascending order of their \<open>x\<close> in every reachable component, and every tick
  keeps them so. The reason is the one the claim gives: the spawning phase either leaves
  the list alone or appends one obstacle at the player's \<open>worldX\<close> plus 1200, which lies
  strictly beyond the \<open>x\<close> of the last obstacle when there is one; and the eviction
  either leaves the list alone or drops its first element.
\<close>

theorem obstacles_sorted:
  "(reachable c \<longrightarrow> sorted_wrt (<) (map ox (obstacles (stateRef c))))
   \<and> (validRandom rnd \<longrightarrow> sorted_wrt (<) (map ox (obstacles (stateRef c))) \<longrightarrow>
        sorted_wrt (<) (map ox (obstacles (stateRef (loop rnd c)))))
   \<and> (validRandom rnd \<longrightarrow>
        obstacles (fst (spawnObstacle rnd h s)) = obstacles s
        \<or> (\<exists>obs. obstacles (fst (spawnObstacle rnd h s)) = obstacles s @ [obs]
               \<and> ox obs = worldX (player s) + 1200
               \<and> (obstacles s \<noteq> [] \<longrightarrow> ox (last (obstacles s)) < ox obs)))
   \<and> (obstacles (removeOldObstacle s) = obstacles s
        \<or> obstacles (removeOldObstacle s) = tl (obstacles s))"
  by (simp add: reachable_sorted loop_sorted validRandom_def spawnObstacle_result
      removeOldObstacle_result)

text \<open>
  The theorem at work on reachable components. Sixty ticks into a run whose second tick
  spawned a trap at 1221, a tick spawns a second trap onto the list, at 1830. And in
  \<open>twentyTraps\<close> the list holds twenty traps; 58 ticks later the next spawn appends a
  trap at the player's \<open>worldX\<close> plus 1200 and the eviction of the same tick drops the
  first one. The list is in ascending order before and after both.
\<close>

theorem obstacles_sorted_witness:
  "reachable (quietRun 59) \<and> validRandom (\<lambda>_. 0)
   \<and> map ox (obstacles (stateRef (quietRun 59))) = [1221]
   \<and> map ox (obstacles (stateRef (loop (\<lambda>_. 0) (quietRun 59)))) = [1221, 1830]
   \<and> sorted_wrt (<) (map ox (obstacles (stateRef (loop (\<lambda>_. 0) (quietRun 59)))))
   \<and> reachable twentyTraps
   \<and> length (obstacles (stateRef twentyTraps)) = 20
   \<and> sorted_wrt (<) (map ox (obstacles (stateRef twentyTraps)))
   \<and> reachable (resize 900 (fold dispatch (replicate 57 quietTick) twentyTraps))
   \<and> obstacles (stateRef (loop (\<lambda>_. 0)
         (resize 900 (fold dispatch (replicate 57 quietTick) twentyTraps)))) =
       tl (obstacles (stateRef twentyTraps)) @
       [\<lparr>ox = worldX (player (stateRef (loop (\<lambda>_. 0)
                 (resize 900 (fold dispatch (replicate 57 quietTick) twentyTraps))))) + 1200,
         oy = 735, ow = 60, oh = 45, collided = False\<rparr>]
   \<and> sorted_wrt (<) (map ox (obstacles (stateRef (loop (\<lambda>_. 0)
         (resize 900 (fold dispatch (replicate 57 quietTick) twentyTraps))))))"
proof -
  let ?r = "\<lambda>_::nat. 0 :: real"
  let ?p = "resize 900 (fold dispatch (replicate 57 quietTick) twentyTraps)"
  have valid: "validRandom ?r"
    by (simp add: validRandom_def)
  have two: "reachable (quietRun 59)"
    by (rule reachable_quietRun) simp_all
  from obstacles_sorted [of "quietRun 59" ?r] two valid
  have small: "sorted_wrt (<) (map ox (obstacles (stateRef (loop ?r (quietRun 59)))))"
    by blast
  from obstacles_sorted [of twentyTraps ?r] reachable_twentyTraps
  have full: "sorted_wrt (<) (map ox (obstacles (stateRef twentyTraps)))"
    by blast
  from obstacles_sorted [of ?p ?r] twentyTraps_next(2) valid
  have evicted: "sorted_wrt (<) (map ox (obstacles (stateRef (loop ?r ?p))))"
    by blast
  from two valid second_spawn small reachable_twentyTraps twentyTraps_next full evicted
  show ?thesis
    by (intro conjI)
qed

subsection \<open>A tick of a stopped run\<close>

text \<open>
  Claim C2. A tick while \<open>isRunning\<close> is false changes nothing: the component after
  the tick is the component before it, with its score, \<open>worldX\<close>, \<open>gameSpeed\<close>,
  \<open>frameCount\<close>, obstacles and particles. So does any number of ticks after the run
  has stopped, whatever the random draws; in particular none of them spawns an obstacle.
\<close>

theorem loop_not_running_noop:
  assumes "\<not> isRunning (stateRef c)"
  shows "loop rnd c = c \<and> fold loop rnds c = c"
proof
  show one: "loop rnd c = c" for rnd
    using assms by (simp add: loop_def)
  show "fold loop rnds c = c"
    by (induction rnds) (simp_all add: one)
qed

theorem loop_not_running_noop_witness:
  "\<not> isRunning (stateRef initialComponent)
   \<and> loop (\<lambda>_. 1 / 2) initialComponent = initialComponent
   \<and> \<not> isRunning (stateRef (loop (\<lambda>_. 1 / 2) beforeTrap))
   \<and> loop (\<lambda>_. 1 / 100) (loop (\<lambda>_. 1 / 2) beforeTrap) = loop (\<lambda>_. 1 / 2) beforeTrap
   \<and> fold loop [\<lambda>_. 0, \<lambda>_. 1 / 2, \<lambda>_. 1 / 100] (loop (\<lambda>_. 1 / 2) beforeTrap)
       = loop (\<lambda>_. 1 / 2) beforeTrap"
proof -
  have idle: "\<not> isRunning (stateRef initialComponent)"
    by (simp add: initialComponent_def initialState_def)
  have "isRunning (stateRef beforeTrap)"
    by (simp add: beforeTrap_def)
  then have "ended (loop (\<lambda>_. 1 / 2) beforeTrap)"
    by (rule loop_hit) (simp add: beforeTrap_hit)
  then have stopped: "\<not> isRunning (stateRef (loop (\<lambda>_. 1 / 2) beforeTrap))"
    by (simp add: ended_def)
  from loop_not_running_noop [OF idle] loop_not_running_noop [OF stopped] idle stopped
  show ?thesis
    by blast
qed

end
